theory Spec2Isabelle
  imports Main
begin

section \<open>The AVM arithmetic the contracts are written in\<close>

text \<open>
  The contracts are PyTeal programs. Every TEAL value is either a 64-bit unsigned
  integer or a byte string; a program that overflows, underflows, divides by zero or
  fails an \<open>Assert\<close> stops, and the enclosing transaction group is rejected.
  Integers are modelled as \<open>nat\<close> with every range check written out, and a stopped
  program as \<open>Inl\<close> of the reason.
\<close>

datatype error =
    AssertFailed
  | Overflow
  | Underflow
  | DivByZero
  | BadIndex
  | BytesTooLong

definition seq :: "error + 'a \<Rightarrow> ('a \<Rightarrow> error + 'b) \<Rightarrow> error + 'b" where
  "seq m f = (case m of Inl e \<Rightarrow> Inl e | Inr x \<Rightarrow> f x)"

definition Assert :: "bool \<Rightarrow> error + unit" where
  "Assert c = (if c then Inr () else Inl AssertFailed)"

definition MAX_INT_U64 :: nat where
  "MAX_INT_U64 = 2 ^ 64 - 1"

definition FIXED_6_SCALE_FACTOR :: nat where
  "FIXED_6_SCALE_FACTOR = 1000000"

definition FIXED_9_SCALE_FACTOR :: nat where
  "FIXED_9_SCALE_FACTOR = 1000000000"

definition u64 :: "nat \<Rightarrow> bool" where
  "u64 x = (x \<le> MAX_INT_U64)"

text \<open>TEAL \<open>+\<close>, \<open>-\<close>, \<open>*\<close>, \<open>/\<close> on uint64.\<close>

definition Add :: "nat \<Rightarrow> nat \<Rightarrow> error + nat" where
  "Add a b = (if a + b \<le> MAX_INT_U64 then Inr (a + b) else Inl Overflow)"

definition Minus :: "nat \<Rightarrow> nat \<Rightarrow> error + nat" where
  "Minus a b = (if b \<le> a then Inr (a - b) else Inl Underflow)"

definition Mul :: "nat \<Rightarrow> nat \<Rightarrow> error + nat" where
  "Mul a b = (if a * b \<le> MAX_INT_U64 then Inr (a * b) else Inl Overflow)"

definition Div :: "nat \<Rightarrow> nat \<Rightarrow> error + nat" where
  "Div a b = (if b = 0 then Inl DivByZero else Inr (a div b))"

text \<open>
  \<open>WideRatio([a, b], [c])\<close>: \<open>a * b / c\<close> with a 128-bit product, rounded down; the
  program stops when \<open>c\<close> is zero or the quotient does not fit in 64 bits.
\<close>

definition WideRatio :: "nat \<Rightarrow> nat \<Rightarrow> nat \<Rightarrow> error + nat" where
  "WideRatio a b c =
     (if c = 0 then Inl DivByZero
      else if a * b div c \<le> MAX_INT_U64 then Inr (a * b div c)
      else Inl Overflow)"

text \<open>
  \<open>Sqrt\<close>: the largest integer whose square is at most the argument, found bit by bit
  from bit 31 down (a 64-bit argument has a 32-bit root).
\<close>

fun sqrt_bits :: "nat \<Rightarrow> nat \<Rightarrow> nat \<Rightarrow> nat" where
  "sqrt_bits 0 n r = r"
| "sqrt_bits (Suc k) n r =
     (if (r + 2 ^ k) * (r + 2 ^ k) \<le> n then sqrt_bits k n (r + 2 ^ k)
      else sqrt_bits k n r)"

definition Sqrt :: "nat \<Rightarrow> nat" where
  "Sqrt n = sqrt_bits 32 n 0"

subsection \<open>Byte-string arithmetic\<close>

text \<open>
  \<open>b+\<close>, \<open>b-\<close>, \<open>b*\<close>, \<open>b/\<close> and the byte comparisons read their operands as big-endian
  unsigned integers of at most 64 bytes and stop on a longer operand; a result has no
  length limit of its own. \<open>Itob\<close> yields 8 bytes, so a uint64 enters as it is;
  \<open>Btoi\<close> stops on a value of more than 8 bytes. A byte string is modelled by the
  number it denotes.
\<close>

definition bytes_ok :: "nat \<Rightarrow> bool" where
  "bytes_ok a = (a < 2 ^ 512)"

definition BytesAdd :: "nat \<Rightarrow> nat \<Rightarrow> error + nat" where
  "BytesAdd a b = (if bytes_ok a \<and> bytes_ok b then Inr (a + b) else Inl BytesTooLong)"

definition BytesMinus :: "nat \<Rightarrow> nat \<Rightarrow> error + nat" where
  "BytesMinus a b =
     (if bytes_ok a \<and> bytes_ok b then (if b \<le> a then Inr (a - b) else Inl Underflow)
      else Inl BytesTooLong)"

definition BytesMul :: "nat \<Rightarrow> nat \<Rightarrow> error + nat" where
  "BytesMul a b = (if bytes_ok a \<and> bytes_ok b then Inr (a * b) else Inl BytesTooLong)"

definition BytesDiv :: "nat \<Rightarrow> nat \<Rightarrow> error + nat" where
  "BytesDiv a b =
     (if bytes_ok a \<and> bytes_ok b then (if b = 0 then Inl DivByZero else Inr (a div b))
      else Inl BytesTooLong)"

definition BytesGt :: "nat \<Rightarrow> nat \<Rightarrow> error + bool" where
  "BytesGt a b = (if bytes_ok a \<and> bytes_ok b then Inr (a > b) else Inl BytesTooLong)"

definition BytesLe :: "nat \<Rightarrow> nat \<Rightarrow> error + bool" where
  "BytesLe a b = (if bytes_ok a \<and> bytes_ok b then Inr (a \<le> b) else Inl BytesTooLong)"

definition Btoi :: "nat \<Rightarrow> error + nat" where
  "Btoi a = (if a \<le> MAX_INT_U64 then Inr a else Inl Overflow)"

subsection \<open>subroutines.py\<close>

text \<open>
  \<^verbatim>\<open>calculate_integer_wrapped_value(current_value, addend)\<close>:
  \<^verbatim>\<open>remaining_integer_space = MAX_INT_U64 - current_value\<close>, then
  \<^verbatim>\<open>addend - remaining_integer_space - 1\<close> when the addend is larger than the space left
  and \<^verbatim>\<open>current_value + addend\<close> otherwise.
\<close>

definition calculate_integer_wrapped_value :: "nat \<Rightarrow> nat \<Rightarrow> error + nat" where
  "calculate_integer_wrapped_value current_value addend =
     seq (Minus MAX_INT_U64 current_value) (\<lambda>remaining_integer_space.
       if addend > remaining_integer_space
       then seq (Minus addend remaining_integer_space) (\<lambda>d. Minus d 1)
       else Add current_value addend)"

text \<open>The accumulator fed a list of addends, one call per addend.\<close>

fun wrapped_accumulate :: "nat \<Rightarrow> nat list \<Rightarrow> error + nat" where
  "wrapped_accumulate current [] = Inr current"
| "wrapped_accumulate current (a # as) =
     seq (calculate_integer_wrapped_value current a) (\<lambda>c. wrapped_accumulate c as)"

subsection \<open>stable\_swap\_math.py\<close>

text \<open>
  \<^verbatim>\<open>compute_D(asset1_amount, asset2_amount, amplification_param)\<close>. The expressions the
  source names (\<^verbatim>\<open>Ann_calc\<close>, \<^verbatim>\<open>AnnS_calc\<close>, \<^verbatim>\<open>D_prod_denom_calc\<close>, \<^verbatim>\<open>D_prod_calc\<close>,
  \<^verbatim>\<open>D_estimate_num_calc\<close>, \<^verbatim>\<open>D_estimate_denom_calc\<close>, \<^verbatim>\<open>D_estimate_calc\<close>) keep their
  names; \<open>n_coins\<close> is 2, so \<^verbatim>\<open>Exp(n_coins, n_coins)\<close> is 4.
\<close>

definition Ann_calc :: "nat \<Rightarrow> error + nat" where
  "Ann_calc amplification_param = Mul amplification_param 4"

definition AnnS_calc :: "nat \<Rightarrow> nat \<Rightarrow> nat \<Rightarrow> error + nat" where
  "AnnS_calc asset1_amount asset2_amount amplification_param =
     seq (Ann_calc amplification_param) (\<lambda>Ann.
     seq (Add asset1_amount asset2_amount) (\<lambda>S.
     seq (BytesMul Ann S) (\<lambda>m. BytesDiv m FIXED_6_SCALE_FACTOR)))"

definition D_prod_denom_calc :: "nat \<Rightarrow> nat \<Rightarrow> error + nat" where
  "D_prod_denom_calc asset1_amount asset2_amount =
     seq (BytesMul asset2_amount asset1_amount) (\<lambda>p. BytesMul 4 p)"

definition D_prod_calc :: "nat \<Rightarrow> nat \<Rightarrow> error + nat" where
  "D_prod_calc D_prod_denom D_prev =
     seq (BytesMul D_prev D_prev) (\<lambda>sq.
     seq (BytesMul D_prev sq) (\<lambda>cube. BytesDiv cube D_prod_denom))"

definition D_estimate_num_calc :: "nat \<Rightarrow> nat \<Rightarrow> nat \<Rightarrow> error + nat" where
  "D_estimate_num_calc AnnS D_prod D_prev =
     seq (BytesMul D_prod 2) (\<lambda>p2.
     seq (BytesAdd AnnS p2) (\<lambda>a. BytesMul a D_prev))"

definition D_estimate_denom_calc :: "nat \<Rightarrow> nat \<Rightarrow> nat \<Rightarrow> error + nat" where
  "D_estimate_denom_calc amplification_param D_prod D_prev =
     seq (Ann_calc amplification_param) (\<lambda>Ann.
     seq (Minus Ann FIXED_6_SCALE_FACTOR) (\<lambda>Ann1.
     seq (BytesMul Ann1 D_prev) (\<lambda>m.
     seq (BytesDiv m FIXED_6_SCALE_FACTOR) (\<lambda>q.
     seq (BytesMul D_prod 3) (\<lambda>p3. BytesAdd q p3)))))"

definition D_estimate_calc :: "nat \<Rightarrow> nat \<Rightarrow> nat \<Rightarrow> nat \<Rightarrow> error + nat" where
  "D_estimate_calc amplification_param AnnS D_prod D_prev =
     seq (D_estimate_num_calc AnnS D_prod D_prev) (\<lambda>num.
     seq (D_estimate_denom_calc amplification_param D_prod D_prev) (\<lambda>den.
       BytesDiv num den))"

text \<open>
  The \<^verbatim>\<open>For\<close> loop, \<open>i\<close> from 0 while \<open>i < 255\<close>: one Newton round, then a return out
  of the loop when the new estimate is within 1 of the previous one. After the loop
  stands \<^verbatim>\<open>Assert(i.load() < Int(255))\<close>, which \<open>i = 255\<close> fails.
\<close>

function compute_D_loop :: "nat \<Rightarrow> nat \<Rightarrow> nat \<Rightarrow> nat \<Rightarrow> nat \<Rightarrow> error + nat" where
  "compute_D_loop amplification_param AnnS D_prod_denom D_estimate i =
     (if i < 255 then
        seq (D_prod_calc D_prod_denom D_estimate) (\<lambda>D_prod.
        seq (D_estimate_calc amplification_param AnnS D_prod D_estimate) (\<lambda>D_new.
        seq (BytesGt D_new D_estimate) (\<lambda>gt.
        seq (if gt then BytesMinus D_new D_estimate else BytesMinus D_estimate D_new) (\<lambda>diff.
        seq (BytesLe diff 1) (\<lambda>le.
          if le then Btoi D_new
          else compute_D_loop amplification_param AnnS D_prod_denom D_new (i + 1))))))
      else seq (Assert (i < 255)) (\<lambda>_. Inr 0))"
  by pat_completeness auto
termination
  by (relation "measure (\<lambda>(amplification_param, AnnS, D_prod_denom, D_estimate, i). 255 - i)") auto

declare compute_D_loop.simps [simp del]

definition compute_D :: "nat \<Rightarrow> nat \<Rightarrow> nat \<Rightarrow> error + nat" where
  "compute_D asset1_amount asset2_amount amplification_param =
     seq (Add asset1_amount asset2_amount) (\<lambda>S.
       if S = 0 then Inr 0
       else
         seq (AnnS_calc asset1_amount asset2_amount amplification_param) (\<lambda>AnnS.
         seq (D_prod_denom_calc asset1_amount asset2_amount) (\<lambda>D_prod_denom.
           compute_D_loop amplification_param AnnS D_prod_denom S 0)))"

text \<open>
  \<^verbatim>\<open>interpolate_amplification_factor\<close>; \<open>now\<close> is \<^verbatim>\<open>Global.latest_timestamp()\<close>.
\<close>

definition interpolate_amplification_factor ::
    "nat \<Rightarrow> nat \<Rightarrow> nat \<Rightarrow> nat \<Rightarrow> nat \<Rightarrow> error + nat" where
  "interpolate_amplification_factor now initial_A future_A initial_A_time future_A_time =
     (if now < future_A_time then
        (if future_A > initial_A then
           seq (Minus future_A initial_A) (\<lambda>dA.
           seq (Minus now initial_A_time) (\<lambda>dt.
           seq (Mul dA dt) (\<lambda>m.
           seq (Minus future_A_time initial_A_time) (\<lambda>span.
           seq (Div m span) (\<lambda>q. Add initial_A q)))))
         else
           seq (Minus initial_A future_A) (\<lambda>dA.
           seq (Minus now initial_A_time) (\<lambda>dt.
           seq (Mul dA dt) (\<lambda>m.
           seq (Minus future_A_time initial_A_time) (\<lambda>span.
           seq (Div m span) (\<lambda>q. Minus initial_A q))))))
      else Inr future_A)"

text \<open>
  The estimates of \<^verbatim>\<open>compute_D\<close> as a sequence, for stating what the loop returns:
  estimate 0 is \<open>x + y\<close>, and estimate \<open>k + 1\<close> is one Newton round from estimate \<open>k\<close>.
\<close>

definition D_round :: "nat \<Rightarrow> nat \<Rightarrow> nat \<Rightarrow> nat \<Rightarrow> error + nat" where
  "D_round amplification_param AnnS D_prod_denom D_prev =
     seq (D_prod_calc D_prod_denom D_prev) (\<lambda>D_prod.
       D_estimate_calc amplification_param AnnS D_prod D_prev)"

fun D_rounds :: "nat \<Rightarrow> nat \<Rightarrow> nat \<Rightarrow> nat \<Rightarrow> nat \<Rightarrow> error + nat" where
  "D_rounds amplification_param AnnS D_prod_denom S 0 = Inr S"
| "D_rounds amplification_param AnnS D_prod_denom S (Suc k) =
     seq (D_rounds amplification_param AnnS D_prod_denom S k)
       (D_round amplification_param AnnS D_prod_denom)"

definition D_estimate_at :: "nat \<Rightarrow> nat \<Rightarrow> nat \<Rightarrow> nat \<Rightarrow> error + nat" where
  "D_estimate_at x y A k =
     seq (Add x y) (\<lambda>S.
     seq (AnnS_calc x y A) (\<lambda>AnnS.
     seq (D_prod_denom_calc x y) (\<lambda>D_prod_denom.
       D_rounds A AnnS D_prod_denom S k)))"

definition within_one :: "nat \<Rightarrow> nat \<Rightarrow> bool" where
  "within_one a b = (if a > b then a - b \<le> 1 else b - a \<le> 1)"

definition converged_at :: "nat \<Rightarrow> nat \<Rightarrow> nat \<Rightarrow> nat \<Rightarrow> bool" where
  "converged_at x y A k =
     (case D_estimate_at x y A k of
        Inl e \<Rightarrow> False
      | Inr a \<Rightarrow> (case D_estimate_at x y A (Suc k) of
                   Inl e \<Rightarrow> False
                 | Inr b \<Rightarrow> within_one b a))"

definition computed :: "error + 'a \<Rightarrow> bool" where
  "computed r = (case r of Inl e \<Rightarrow> False | Inr v \<Rightarrow> True)"

definition rounds_converged :: "nat \<Rightarrow> nat \<Rightarrow> nat \<Rightarrow> nat \<Rightarrow> nat \<Rightarrow> bool" where
  "rounds_converged amplification_param AnnS D_prod_denom S k =
     (case D_rounds amplification_param AnnS D_prod_denom S k of
        Inl e \<Rightarrow> False
      | Inr a \<Rightarrow> (case D_rounds amplification_param AnnS D_prod_denom S (Suc k) of
                   Inl e \<Rightarrow> False
                 | Inr b \<Rightarrow> within_one b a))"

section \<open>Transactions, groups and pool state\<close>

datatype txn_type = Payment | KeyRegistration | AssetConfig | AssetTransfer | AssetFreeze
  | ApplicationCall

datatype on_complete = NoOp | OptIn | CloseOut | ClearState | UpdateApplication
  | DeleteApplication

text \<open>The fields of a group transaction the pool reads. Arguments are byte strings.\<close>

record txn =
  sender :: string
  type_enum :: txn_type
  on_completion :: on_complete
  application_id :: nat
  application_args :: "string list"
  receiver :: string
  amount :: nat
  xfer_asset :: nat
  asset_receiver :: string
  asset_amount :: nat
  fee :: nat

text \<open>
  What one application call sees besides the pool's own state: the group and the call's
  place in it, the globals of the ledger, the escrow's Algo balance at the time of the
  call (\<^verbatim>\<open>Balance(Global.current_application_address())\<close>), the manager application the
  contract was built with (\<^verbatim>\<open>self.manager_app_id\<close>), and the manager's global state as
  \<^verbatim>\<open>App.globalGetEx\<close> reads it (\<open>None\<close> when the key has no value).
\<close>

record call_context =
  gtxns :: "txn list"
  group_index :: nat
  current_application_id :: nat
  current_application_address :: string
  latest_timestamp :: nat
  min_txn_fee :: nat
  min_balance :: nat
  escrow_balance :: nat
  manager_app_id :: nat
  manager_reserve_factor :: "nat option"
  manager_flash_loan_fee :: "nat option"
  manager_max_flash_loan_ratio :: "nat option"

text \<open>
  The pool's global state (the \<^verbatim>\<open>WrappedVar\<close>s of \<^verbatim>\<open>AlgofiAMMPool.__init__\<close>, and the four
  amplification variables \<^verbatim>\<open>AlgofiAMMStablePool.__init__\<close> adds). A key never written
  reads as 0.
\<close>

record pool =
  lp_id :: nat
  admin :: string
  initialized :: nat
  asset1_id :: nat
  asset2_id :: nat
  balance_1 :: nat
  balance_2 :: nat
  lp_circulation :: nat
  reserve_factor :: nat
  asset1_reserve :: nat
  asset2_reserve :: nat
  cumsum_time_weighted_asset1_to_asset2_price :: nat
  cumsum_time_weighted_asset2_to_asset1_price :: nat
  latest_time :: nat
  cumsum_volume_asset1 :: nat
  cumsum_volume_asset2 :: nat
  cumsum_volume_weighted_asset1_to_asset2_price :: nat
  cumsum_volume_weighted_asset2_to_asset1_price :: nat
  cumsum_fees_asset1 :: nat
  cumsum_fees_asset2 :: nat
  flash_loan_fee :: nat
  max_flash_loan_ratio :: nat
  swap_fee_pct_scaled_var :: nat
  param_update_delay :: nat
  initial_amplification_factor :: nat
  future_amplification_factor :: nat
  initial_amplification_factor_time :: nat
  future_amplification_factor_time :: nat

text \<open>Inner transactions a call submits.\<close>

datatype itxn =
    PaymentTxn nat string
  | AssetTransferTxn nat nat string
  | OpUpCall nat

text \<open>
  What a successful call leaves: the new global state, the inner transactions it
  submitted in order, and the scratch slots the claims speak of (a slot the call never
  stores to holds 0).
\<close>

record outcome =
  globals :: pool
  itxns :: "itxn list"
  lp_issued_store :: nat
  pool_asset1_residual_store :: nat
  pool_asset2_residual_store :: nat
  burn_asset1_amount_store :: nat
  burn_asset2_amount_store :: nat
  swap_input_is_asset1_store :: bool
  swap_fee_store :: nat
  swap_input_amount_less_fees_store :: nat
  swap_output_amount_store :: nat
  residual_amount_store :: nat
  flash_loan_fee_store :: nat
  fee_to_reserve_store :: nat

definition outcome_of :: "pool \<Rightarrow> itxn list \<Rightarrow> outcome" where
  "outcome_of s sent =
     \<lparr> globals = s, itxns = sent, lp_issued_store = 0, pool_asset1_residual_store = 0,
       pool_asset2_residual_store = 0, burn_asset1_amount_store = 0,
       burn_asset2_amount_store = 0, swap_input_is_asset1_store = False,
       swap_fee_store = 0, swap_input_amount_less_fees_store = 0,
       swap_output_amount_store = 0, residual_amount_store = 0, flash_loan_fee_store = 0,
       fee_to_reserve_store = 0 \<rparr>"

subsection \<open>constants.py\<close>

definition MAX_ASSET_RATIO :: nat where
  "MAX_ASSET_RATIO = 1000000000"

definition MIN_POOL_BALANCE :: nat where
  "MIN_POOL_BALANCE = 1000"

definition MAX_AMPLIFICATION_FACTOR :: nat where
  "MAX_AMPLIFICATION_FACTOR = 400000000"

definition FLASH_LOAN_IDX :: nat where
  "FLASH_LOAN_IDX = 0"

definition FLASH_LOAN_REPAY_IDX :: "call_context \<Rightarrow> error + nat" where
  "FLASH_LOAN_REPAY_IDX ctx = Minus (length (gtxns ctx)) 1"

text \<open>\<^verbatim>\<open>relative_index(offset)\<close>: \<^verbatim>\<open>Txn.group_index()\<close> plus or minus the offset, in uint64.\<close>

definition relative_index :: "call_context \<Rightarrow> int \<Rightarrow> error + nat" where
  "relative_index ctx offset =
     (if offset > 0 then Add (group_index ctx) (nat offset)
      else Minus (group_index ctx) (nat \<bar>offset\<bar>))"

text \<open>
  Modelled from the spec: the operation names of \<^verbatim>\<open>AlgofiAMMPoolStrings\<close>
  (contract\_strings.py of the AMM is not among the sources), as section 6 lists them.
\<close>

definition pool_str :: string where "pool_str = ''p''"
definition redeem_pool_asset1_residual_str :: string where
  "redeem_pool_asset1_residual_str = ''rr1''"
definition redeem_pool_asset2_residual_str :: string where
  "redeem_pool_asset2_residual_str = ''rr2''"
definition burn_asset1_out_str :: string where "burn_asset1_out_str = ''b1''"
definition burn_asset2_out_str :: string where "burn_asset2_out_str = ''b2''"
definition swap_for_exact_str :: string where "swap_for_exact_str = ''f''"
definition swap_exact_for_str :: string where "swap_exact_for_str = ''s''"
definition redeem_swap_residual_str :: string where "redeem_swap_residual_str = ''rrs''"
definition flash_loan_str :: string where "flash_loan_str = ''fl''"

subsection \<open>Reading the group\<close>

definition Gtxn :: "call_context \<Rightarrow> nat \<Rightarrow> error + txn" where
  "Gtxn ctx idx = (if idx < length (gtxns ctx) then Inr (gtxns ctx ! idx) else Inl BadIndex)"

definition Txn :: "call_context \<Rightarrow> error + txn" where
  "Txn ctx = Gtxn ctx (group_index ctx)"

definition arg :: "txn \<Rightarrow> nat \<Rightarrow> error + string" where
  "arg t i =
     (if i < length (application_args t) then Inr (application_args t ! i) else Inl BadIndex)"

text \<open>\<^verbatim>\<open>Btoi\<close> of an argument: big-endian, at most 8 bytes.\<close>

definition btoi_bytes :: "string \<Rightarrow> error + nat" where
  "btoi_bytes bs =
     (if length bs > 8 then Inl BytesTooLong
      else Inr (foldl (\<lambda>acc c. acc * 256 + of_char c) 0 bs))"

definition arg_uint :: "txn \<Rightarrow> nat \<Rightarrow> error + nat" where
  "arg_uint t i = seq (arg t i) btoi_bytes"

section \<open>pool.py: helpers\<close>

text \<open>
  The three \<^verbatim>\<open>verify_txn_is_...\<close> helpers take the index as the expression the source
  passes (a \<^verbatim>\<open>relative_index\<close> or \<^verbatim>\<open>FLASH_LOAN_REPAY_IDX\<close>), which itself can stop the
  program, and hand back the transaction they checked so that the caller can read its
  amount.
\<close>

definition verify_txn_is_named_application_call ::
    "call_context \<Rightarrow> error + nat \<Rightarrow> string \<Rightarrow> error + unit" where
  "verify_txn_is_named_application_call ctx idx name =
     seq idx (\<lambda>i.
     seq (Gtxn ctx i) (\<lambda>t.
     seq (Assert (on_completion t = NoOp)) (\<lambda>_.
     seq (Assert (type_enum t = ApplicationCall)) (\<lambda>_.
     seq (Assert (application_id t = current_application_id ctx)) (\<lambda>_.
     seq (arg t 0) (\<lambda>a0. Assert (a0 = name)))))))"

definition verify_txn_is_sending_algos_to_pool ::
    "call_context \<Rightarrow> error + nat \<Rightarrow> error + txn" where
  "verify_txn_is_sending_algos_to_pool ctx idx =
     seq idx (\<lambda>i.
     seq (Gtxn ctx i) (\<lambda>t.
     seq (Assert (type_enum t = Payment)) (\<lambda>_.
     seq (Assert (receiver t = current_application_address ctx)) (\<lambda>_.
     seq (Assert (amount t > 0)) (\<lambda>_. Inr t)))))"

definition verify_txn_is_sending_asa_to_pool ::
    "call_context \<Rightarrow> error + nat \<Rightarrow> nat \<Rightarrow> error + txn" where
  "verify_txn_is_sending_asa_to_pool ctx idx asset_id =
     seq idx (\<lambda>i.
     seq (Gtxn ctx i) (\<lambda>t.
     seq (Assert (type_enum t = AssetTransfer)) (\<lambda>_.
     seq (Assert (xfer_asset t = asset_id)) (\<lambda>_.
     seq (Assert (asset_receiver t = current_application_address ctx)) (\<lambda>_.
     seq (Assert (asset_amount t > 0)) (\<lambda>_. Inr t))))))"

text \<open>\<^verbatim>\<open>Assert(Txn.on_completion() == OnComplete.NoOp)\<close>, \<^verbatim>\<open>Assert(Txn.type_enum() == TxnType.ApplicationCall)\<close>.\<close>

definition validate_noop_application_call :: "call_context \<Rightarrow> error + txn" where
  "validate_noop_application_call ctx =
     seq (Txn ctx) (\<lambda>t.
     seq (Assert (on_completion t = NoOp)) (\<lambda>_.
     seq (Assert (type_enum t = ApplicationCall)) (\<lambda>_. Inr t)))"

text \<open>
  The senders of subroutines.py and pool.py, each giving the inner transaction it
  submits (to \<^verbatim>\<open>Txn.sender()\<close>). Whether the ledger then accepts the inner transaction
  is outside the contract.
\<close>

definition send_asa :: "call_context \<Rightarrow> nat \<Rightarrow> nat \<Rightarrow> error + itxn" where
  "send_asa ctx asset_id amt =
     seq (Txn ctx) (\<lambda>t. Inr (AssetTransferTxn asset_id amt (sender t)))"

definition send_algo :: "call_context \<Rightarrow> nat \<Rightarrow> error + itxn" where
  "send_algo ctx amt =
     seq (Add amt (min_balance ctx)) (\<lambda>need.
     seq (Assert (escrow_balance ctx \<ge> need)) (\<lambda>_.
     seq (Txn ctx) (\<lambda>t. Inr (PaymentTxn amt (sender t)))))"

definition send_asset1 :: "call_context \<Rightarrow> pool \<Rightarrow> nat \<Rightarrow> error + itxn" where
  "send_asset1 ctx s amt =
     (if asset1_id s = 1 then send_algo ctx amt else send_asa ctx (asset1_id s) amt)"

definition send_asset2 :: "call_context \<Rightarrow> pool \<Rightarrow> nat \<Rightarrow> error + itxn" where
  "send_asset2 ctx s amt = send_asa ctx (asset2_id s) amt"

definition send_lp :: "call_context \<Rightarrow> pool \<Rightarrow> nat \<Rightarrow> error + itxn" where
  "send_lp ctx s amt = send_asa ctx (lp_id s) amt"

text \<open>\<^verbatim>\<open>op_up(fee, op_farm_app_id)\<close>: \<open>fee / 1000\<close> inner application calls.\<close>

definition op_up :: "nat \<Rightarrow> nat \<Rightarrow> itxn list" where
  "op_up fee_budget op_farm_app_id = replicate (fee_budget div 1000) (OpUpCall op_farm_app_id)"

definition update_reserve_factor :: "call_context \<Rightarrow> pool \<Rightarrow> error + pool" where
  "update_reserve_factor ctx s =
     (case manager_reserve_factor ctx of
        None \<Rightarrow> Inl AssertFailed
      | Some v \<Rightarrow>
          seq (Assert (v \<le> FIXED_6_SCALE_FACTOR)) (\<lambda>_. Inr (s\<lparr>reserve_factor := v\<rparr>)))"

definition update_flash_loan_fee :: "call_context \<Rightarrow> pool \<Rightarrow> error + pool" where
  "update_flash_loan_fee ctx s =
     (case manager_flash_loan_fee ctx of
        None \<Rightarrow> Inl AssertFailed
      | Some v \<Rightarrow>
          seq (Assert (v \<le> FIXED_6_SCALE_FACTOR)) (\<lambda>_. Inr (s\<lparr>flash_loan_fee := v\<rparr>)))"

definition update_max_flash_loan_ratio :: "call_context \<Rightarrow> pool \<Rightarrow> error + pool" where
  "update_max_flash_loan_ratio ctx s =
     (case manager_max_flash_loan_ratio ctx of
        None \<Rightarrow> Inl AssertFailed
      | Some v \<Rightarrow>
          seq (Assert (v \<le> FIXED_6_SCALE_FACTOR)) (\<lambda>_. Inr (s\<lparr>max_flash_loan_ratio := v\<rparr>)))"

text \<open>
  \<^verbatim>\<open>update_reserves(fee_is_asset1, amount)\<close>; the result carries what went to
  \<^verbatim>\<open>fee_to_reserve_store\<close>.
\<close>

definition update_reserves :: "bool \<Rightarrow> nat \<Rightarrow> pool \<Rightarrow> error + pool \<times> nat" where
  "update_reserves fee_is_asset1 amt s =
     seq (WideRatio amt (reserve_factor s) FIXED_6_SCALE_FACTOR) (\<lambda>fee_to_reserve.
       if fee_is_asset1 then
         seq (Minus (balance_1 s) fee_to_reserve) (\<lambda>b.
         seq (Add (asset1_reserve s) fee_to_reserve) (\<lambda>r.
         seq (Minus amt fee_to_reserve) (\<lambda>fees_less_reserve.
         seq (calculate_integer_wrapped_value (cumsum_fees_asset1 s) fees_less_reserve) (\<lambda>c.
           Inr (s\<lparr>balance_1 := b, asset1_reserve := r, cumsum_fees_asset1 := c\<rparr>,
                fee_to_reserve)))))
       else
         seq (Minus (balance_2 s) fee_to_reserve) (\<lambda>b.
         seq (Add (asset2_reserve s) fee_to_reserve) (\<lambda>r.
         seq (Minus amt fee_to_reserve) (\<lambda>fees_less_reserve.
         seq (calculate_integer_wrapped_value (cumsum_fees_asset2 s) fees_less_reserve) (\<lambda>c.
           Inr (s\<lparr>balance_2 := b, asset2_reserve := r, cumsum_fees_asset2 := c\<rparr>,
                fee_to_reserve))))))"

definition validate_asset_ratio :: "pool \<Rightarrow> error + unit" where
  "validate_asset_ratio s =
     seq (Assert (balance_1 s \<ge> MIN_POOL_BALANCE)) (\<lambda>_.
     seq (Assert (balance_2 s \<ge> MIN_POOL_BALANCE)) (\<lambda>_.
     seq (Div (balance_1 s) (balance_2 s)) (\<lambda>r12.
     seq (Assert (r12 < MAX_ASSET_RATIO)) (\<lambda>_.
     seq (Div (balance_2 s) (balance_1 s)) (\<lambda>r21.
       Assert (r21 < MAX_ASSET_RATIO))))))"

text \<open>\<^verbatim>\<open>pool_is_empty = (self.balance_1.get() + self.balance_2.get()) == Int(0)\<close>.\<close>

definition pool_is_empty :: "pool \<Rightarrow> error + bool" where
  "pool_is_empty s = seq (Add (balance_1 s) (balance_2 s)) (\<lambda>t. Inr (t = 0))"

text \<open>The \<^verbatim>\<open>WideRatio\<close> conversions and quotes of \<^verbatim>\<open>AlgofiAMMPool\<close>.\<close>

definition convert_asset1_to_lp :: "pool \<Rightarrow> nat \<Rightarrow> error + nat" where
  "convert_asset1_to_lp s asset1_amount =
     WideRatio asset1_amount (lp_circulation s) (balance_1 s)"

definition convert_asset2_to_lp :: "pool \<Rightarrow> nat \<Rightarrow> error + nat" where
  "convert_asset2_to_lp s asset2_amount =
     WideRatio asset2_amount (lp_circulation s) (balance_2 s)"

definition convert_lp_to_asset1 :: "pool \<Rightarrow> nat \<Rightarrow> error + nat" where
  "convert_lp_to_asset1 s amount_lp = WideRatio amount_lp (balance_1 s) (lp_circulation s)"

definition convert_lp_to_asset2 :: "pool \<Rightarrow> nat \<Rightarrow> error + nat" where
  "convert_lp_to_asset2 s amount_lp = WideRatio amount_lp (balance_2 s) (lp_circulation s)"

definition swap_exact_asset1_for :: "pool \<Rightarrow> nat \<Rightarrow> error + nat" where
  "swap_exact_asset1_for s asset1_amount =
     seq (Add (balance_1 s) asset1_amount) (\<lambda>den. WideRatio (balance_2 s) asset1_amount den)"

definition swap_exact_asset2_for :: "pool \<Rightarrow> nat \<Rightarrow> error + nat" where
  "swap_exact_asset2_for s asset2_amount =
     seq (Add (balance_2 s) asset2_amount) (\<lambda>den. WideRatio (balance_1 s) asset2_amount den)"

definition swap_for_exact_asset1_amount :: "pool \<Rightarrow> nat \<Rightarrow> error + nat" where
  "swap_for_exact_asset1_amount s asset1_amount =
     seq (Minus (balance_1 s) asset1_amount) (\<lambda>den.
     seq (WideRatio (balance_2 s) asset1_amount den) (\<lambda>w. Add w 1))"

definition swap_for_exact_asset2_amount :: "pool \<Rightarrow> nat \<Rightarrow> error + nat" where
  "swap_for_exact_asset2_amount s asset2_amount =
     seq (Minus (balance_2 s) asset2_amount) (\<lambda>den.
     seq (WideRatio (balance_1 s) asset2_amount den) (\<lambda>w. Add w 1))"

section \<open>pool.py: pooling and burning\<close>

text \<open>
  \<^verbatim>\<open>calculate_lp_issuance(pool_is_empty)\<close> of \<^verbatim>\<open>AlgofiAMMPool\<close>, on the adjusted amounts.
  Like its override in the stable pool it is handed the call context and also returns
  the inner transactions it submitted (none here).
\<close>

definition calculate_lp_issuance ::
    "call_context \<Rightarrow> pool \<Rightarrow> bool \<Rightarrow> nat \<Rightarrow> nat \<Rightarrow> error + nat \<times> itxn list" where
  "calculate_lp_issuance ctx s is_empty adjusted1 adjusted2 =
     (if is_empty then
        seq (Div MAX_INT_U64 adjusted1) (\<lambda>q.
          if q > adjusted2
          then seq (Mul adjusted1 adjusted2) (\<lambda>m. Inr (Sqrt m, []))
          else seq (Mul (Sqrt adjusted1) (Sqrt adjusted2)) (\<lambda>m. Inr (m, [])))
      else
        seq (convert_asset1_to_lp s adjusted1) (\<lambda>lp_issued_from_asset1.
        seq (convert_asset2_to_lp s adjusted2) (\<lambda>lp_issued_from_asset2.
          if lp_issued_from_asset1 > lp_issued_from_asset2
          then Inr (lp_issued_from_asset2, [])
          else Inr (lp_issued_from_asset1, []))))"

text \<open>
  \<^verbatim>\<open>adjust_pool_input_amounts(pool_is_empty)\<close>: the adjusted amounts and the two residuals
  (the residual slots are not written for an empty pool).
\<close>

definition adjust_pool_input_amounts ::
    "call_context \<Rightarrow> pool \<Rightarrow> bool \<Rightarrow> nat \<Rightarrow> nat \<Rightarrow> error + nat \<times> nat \<times> nat \<times> nat" where
  "adjust_pool_input_amounts ctx s is_empty pool_asset1_amount pool_asset2_amount =
     (if is_empty then Inr (pool_asset1_amount, pool_asset2_amount, 0, 0)
      else
        seq (WideRatio (balance_1 s) FIXED_9_SCALE_FACTOR (balance_2 s)) (\<lambda>pool_asset_ratio.
        seq (WideRatio pool_asset1_amount FIXED_9_SCALE_FACTOR pool_asset2_amount)
          (\<lambda>incoming_asset_ratio.
        seq (WideRatio pool_asset_ratio FIXED_6_SCALE_FACTOR incoming_asset_ratio)
          (\<lambda>ratio_slippage.
        seq (Txn ctx) (\<lambda>t.
        seq (arg_uint t 1) (\<lambda>pool_slippage_pct_scaled.
        seq (Minus FIXED_6_SCALE_FACTOR pool_slippage_pct_scaled) (\<lambda>lo.
        seq (Add FIXED_6_SCALE_FACTOR pool_slippage_pct_scaled) (\<lambda>hi.
        seq (Assert (ratio_slippage > lo \<and> ratio_slippage < hi)) (\<lambda>_.
          if incoming_asset_ratio > pool_asset_ratio then
            seq (WideRatio pool_asset2_amount (balance_1 s) (balance_2 s)) (\<lambda>w.
            seq (Add w 1) (\<lambda>adjusted1.
            seq (Minus pool_asset1_amount adjusted1) (\<lambda>residual1.
              Inr (adjusted1, pool_asset2_amount, residual1, 0))))
          else if incoming_asset_ratio < pool_asset_ratio then
            seq (WideRatio pool_asset1_amount (balance_2 s) (balance_1 s)) (\<lambda>w.
            seq (Add w 1) (\<lambda>adjusted2.
            seq (Minus pool_asset2_amount adjusted2) (\<lambda>residual2.
              Inr (pool_asset1_amount, adjusted2, 0, residual2))))
          else Inr (pool_asset1_amount, pool_asset2_amount, 0, 0))))))))))"

definition validate_asset1_payment_txn :: "call_context \<Rightarrow> pool \<Rightarrow> error + nat" where
  "validate_asset1_payment_txn ctx s =
     (if asset1_id s = 1 then
        seq (verify_txn_is_sending_algos_to_pool ctx (relative_index ctx (- 2)))
          (\<lambda>t. Inr (amount t))
      else
        seq (verify_txn_is_sending_asa_to_pool ctx (relative_index ctx (- 2)) (asset1_id s))
          (\<lambda>t. Inr (asset_amount t)))"

definition validate_asset2_payment_txn :: "call_context \<Rightarrow> pool \<Rightarrow> error + nat" where
  "validate_asset2_payment_txn ctx s =
     seq (verify_txn_is_sending_asa_to_pool ctx (relative_index ctx (- 1)) (asset2_id s))
       (\<lambda>t. Inr (asset_amount t))"

text \<open>
  \<^verbatim>\<open>on_pool\<close>, with the issuance rule as a parameter: the stable pool inherits
  \<^verbatim>\<open>on_pool\<close> and overrides \<^verbatim>\<open>calculate_lp_issuance\<close>. \<^verbatim>\<open>pool_is_empty\<close> is an expression
  over the state that the source evaluates in three places, all before the balances
  change; it is evaluated once here, where the source first does.
\<close>

definition on_pool_with ::
    "(call_context \<Rightarrow> pool \<Rightarrow> bool \<Rightarrow> nat \<Rightarrow> nat \<Rightarrow> error + nat \<times> itxn list) \<Rightarrow>
     call_context \<Rightarrow> pool \<Rightarrow> error + outcome" where
  "on_pool_with issuance ctx s =
     seq (validate_asset1_payment_txn ctx s) (\<lambda>pool_asset1_amount.
     seq (validate_asset2_payment_txn ctx s) (\<lambda>pool_asset2_amount.
     seq (validate_noop_application_call ctx) (\<lambda>_.
     seq (verify_txn_is_named_application_call ctx (relative_index ctx 1)
            redeem_pool_asset1_residual_str) (\<lambda>_.
     seq (verify_txn_is_named_application_call ctx (relative_index ctx 2)
            redeem_pool_asset2_residual_str) (\<lambda>_.
     seq (pool_is_empty s) (\<lambda>is_empty.
     seq (adjust_pool_input_amounts ctx s is_empty pool_asset1_amount pool_asset2_amount)
       (\<lambda>(adjusted1, adjusted2, residual1, residual2).
     seq (issuance ctx s is_empty adjusted1 adjusted2) (\<lambda>(lp_issued, ops).
     seq (Assert (lp_issued > 0)) (\<lambda>_.
     seq (Add (balance_1 s) adjusted1) (\<lambda>b1.
     seq (Add (balance_2 s) adjusted2) (\<lambda>b2.
     seq (Add (lp_circulation s) lp_issued) (\<lambda>circ.
     seq (send_lp ctx s lp_issued) (\<lambda>sent.
       let s' = s\<lparr>latest_time := (if is_empty then latest_timestamp ctx else latest_time s),
                   balance_1 := b1, balance_2 := b2, lp_circulation := circ\<rparr>
       in seq (validate_asset_ratio s') (\<lambda>_.
            Inr ((outcome_of s' (ops @ [sent]))
                   \<lparr>lp_issued_store := lp_issued,
                    pool_asset1_residual_store := residual1,
                    pool_asset2_residual_store := residual2\<rparr>)))))))))))))))"

definition on_pool :: "call_context \<Rightarrow> pool \<Rightarrow> error + outcome" where
  "on_pool = on_pool_with calculate_lp_issuance"

text \<open>\<^verbatim>\<open>on_burn_asset1_out\<close>, \<^verbatim>\<open>on_burn_asset2_out\<close>.\<close>

definition on_burn_asset1_out :: "call_context \<Rightarrow> pool \<Rightarrow> error + outcome" where
  "on_burn_asset1_out ctx s =
     seq (verify_txn_is_sending_asa_to_pool ctx (relative_index ctx (- 1)) (lp_id s)) (\<lambda>lp_in.
     seq (validate_noop_application_call ctx) (\<lambda>_.
     seq (verify_txn_is_named_application_call ctx (relative_index ctx 1)
            burn_asset2_out_str) (\<lambda>_.
     seq (if asset_amount lp_in = lp_circulation s then Inr (balance_1 s)
          else convert_lp_to_asset1 s (asset_amount lp_in))
       (\<lambda>burn_asset1_amount.
     seq (Assert (burn_asset1_amount > 0)) (\<lambda>_.
     seq (Assert (burn_asset1_amount \<le> balance_1 s)) (\<lambda>_.
     seq (Minus (balance_1 s) burn_asset1_amount) (\<lambda>b1.
     seq (send_asset1 ctx s burn_asset1_amount) (\<lambda>sent.
       Inr ((outcome_of (s\<lparr>balance_1 := b1\<rparr>) [sent])
              \<lparr>burn_asset1_amount_store := burn_asset1_amount\<rparr>)))))))))"

definition on_burn_asset2_out :: "call_context \<Rightarrow> pool \<Rightarrow> error + outcome" where
  "on_burn_asset2_out ctx s =
     seq (verify_txn_is_sending_asa_to_pool ctx (relative_index ctx (- 2)) (lp_id s)) (\<lambda>lp_in.
     seq (verify_txn_is_named_application_call ctx (relative_index ctx (- 1))
            burn_asset1_out_str) (\<lambda>_.
     seq (validate_noop_application_call ctx) (\<lambda>_.
     seq (if asset_amount lp_in = lp_circulation s then Inr (balance_2 s)
          else convert_lp_to_asset2 s (asset_amount lp_in))
       (\<lambda>burn_asset2_amount.
     seq (Assert (burn_asset2_amount > 0)) (\<lambda>_.
     seq (Assert (burn_asset2_amount \<le> balance_2 s)) (\<lambda>_.
     seq (Minus (balance_2 s) burn_asset2_amount) (\<lambda>b2.
     seq (Minus (lp_circulation s) (asset_amount lp_in)) (\<lambda>circ.
     seq (send_asset2 ctx s burn_asset2_amount) (\<lambda>sent.
       Inr ((outcome_of (s\<lparr>balance_2 := b2, lp_circulation := circ\<rparr>) [sent])
              \<lparr>burn_asset2_amount_store := burn_asset2_amount\<rparr>))))))))))"

section \<open>pool.py: swapping\<close>

text \<open>
  \<^verbatim>\<open>save_latest_cumsum_time_weighted_price\<close>: the new state and the two prices it leaves
  in \<^verbatim>\<open>asset1_to_asset2_price_store\<close> and \<^verbatim>\<open>asset2_to_asset1_price_store\<close>.
\<close>

definition save_latest_cumsum_time_weighted_price ::
    "call_context \<Rightarrow> pool \<Rightarrow> error + pool \<times> nat \<times> nat" where
  "save_latest_cumsum_time_weighted_price ctx s =
     seq (Minus (latest_timestamp ctx) (latest_time s)) (\<lambda>time_delta.
     seq (WideRatio (balance_2 s) FIXED_9_SCALE_FACTOR (balance_1 s)) (\<lambda>price12.
     seq (WideRatio (balance_1 s) FIXED_9_SCALE_FACTOR (balance_2 s)) (\<lambda>price21.
     seq (Div MAX_INT_U64 price12) (\<lambda>q12.
     seq (if q12 > time_delta
          then seq (Mul price12 time_delta)
                 (calculate_integer_wrapped_value
                    (cumsum_time_weighted_asset1_to_asset2_price s))
          else Inr (cumsum_time_weighted_asset1_to_asset2_price s)) (\<lambda>c12.
     seq (Div MAX_INT_U64 price21) (\<lambda>q21.
     seq (if q21 > time_delta
          then seq (Mul price21 time_delta)
                 (calculate_integer_wrapped_value
                    (cumsum_time_weighted_asset2_to_asset1_price s))
          else Inr (cumsum_time_weighted_asset2_to_asset1_price s)) (\<lambda>c21.
       Inr (s\<lparr>latest_time := latest_timestamp ctx,
               cumsum_time_weighted_asset1_to_asset2_price := c12,
               cumsum_time_weighted_asset2_to_asset1_price := c21\<rparr>,
            price12, price21))))))))"

definition save_latest_cumsum_volume ::
    "pool \<Rightarrow> nat \<Rightarrow> nat \<Rightarrow> nat \<Rightarrow> nat \<Rightarrow> error + pool" where
  "save_latest_cumsum_volume s price12 price21 asset1_volume asset2_volume =
     seq (calculate_integer_wrapped_value (cumsum_volume_asset1 s) asset1_volume) (\<lambda>v1.
     seq (calculate_integer_wrapped_value (cumsum_volume_asset2 s) asset2_volume) (\<lambda>v2.
     seq (Div MAX_INT_U64 asset2_volume) (\<lambda>q2.
     seq (if q2 > price12
          then seq (Mul asset2_volume price12)
                 (calculate_integer_wrapped_value
                    (cumsum_volume_weighted_asset1_to_asset2_price s))
          else Inr (cumsum_volume_weighted_asset1_to_asset2_price s)) (\<lambda>w12.
     seq (Div MAX_INT_U64 asset1_volume) (\<lambda>q1.
     seq (if q1 > price21
          then seq (Mul asset1_volume price21)
                 (calculate_integer_wrapped_value
                    (cumsum_volume_weighted_asset2_to_asset1_price s))
          else Inr (cumsum_volume_weighted_asset2_to_asset1_price s)) (\<lambda>w21.
       Inr (s\<lparr>cumsum_volume_asset1 := v1, cumsum_volume_asset2 := v2,
               cumsum_volume_weighted_asset1_to_asset2_price := w12,
               cumsum_volume_weighted_asset2_to_asset1_price := w21\<rparr>)))))))"

text \<open>\<^verbatim>\<open>validate_asset_payment_txn\<close> of \<^verbatim>\<open>on_swap\<close>: the input amount and whether it is asset 1.\<close>

definition validate_asset_payment_txn :: "call_context \<Rightarrow> pool \<Rightarrow> error + nat \<times> bool" where
  "validate_asset_payment_txn ctx s =
     seq (relative_index ctx (- 1)) (\<lambda>i.
     seq (Gtxn ctx i) (\<lambda>t.
       if type_enum t = Payment then
         seq (Assert (asset1_id s = 1)) (\<lambda>_.
         seq (verify_txn_is_sending_algos_to_pool ctx (relative_index ctx (- 1))) (\<lambda>t'.
           Inr (amount t', True)))
       else
         seq (Assert (xfer_asset t = asset1_id s \<or> xfer_asset t = asset2_id s)) (\<lambda>_.
         seq (verify_txn_is_sending_asa_to_pool ctx (relative_index ctx (- 1)) (xfer_asset t))
           (\<lambda>t'. Inr (asset_amount t', xfer_asset t' = asset1_id s)))))"

text \<open>The \<^verbatim>\<open>swap_fee\<close> expression of \<^verbatim>\<open>handle_swap_exact_for\<close>.\<close>

definition swap_fee_exact_for :: "pool \<Rightarrow> nat \<Rightarrow> error + nat" where
  "swap_fee_exact_for s swap_input_amount =
     seq (WideRatio swap_input_amount (swap_fee_pct_scaled_var s) FIXED_6_SCALE_FACTOR)
       (\<lambda>w. Add w 1)"

definition handle_swap_exact_for ::
    "call_context \<Rightarrow> pool \<Rightarrow> nat \<Rightarrow> nat \<Rightarrow> nat \<Rightarrow> bool \<Rightarrow> error + outcome" where
  "handle_swap_exact_for ctx s price12 price21 swap_input_amount input_is_asset1 =
     seq (swap_fee_exact_for s swap_input_amount) (\<lambda>swap_fee.
     seq (Minus swap_input_amount swap_fee) (\<lambda>less_fees.
     seq (Assert (less_fees > 0)) (\<lambda>_.
     seq (if input_is_asset1 then
            seq (swap_exact_asset1_for s less_fees) (\<lambda>out.
            seq (Add (balance_1 s) swap_input_amount) (\<lambda>b1.
            seq (Minus (balance_2 s) out) (\<lambda>b2.
            seq (send_asset2 ctx s out) (\<lambda>sent.
            seq (save_latest_cumsum_volume (s\<lparr>balance_1 := b1, balance_2 := b2\<rparr>)
                   price12 price21 less_fees out) (\<lambda>s'.
              Inr (s', sent, out))))))
          else
            seq (swap_exact_asset2_for s less_fees) (\<lambda>out.
            seq (Minus (balance_1 s) out) (\<lambda>b1.
            seq (Add (balance_2 s) swap_input_amount) (\<lambda>b2.
            seq (send_asset1 ctx s out) (\<lambda>sent.
            seq (save_latest_cumsum_volume (s\<lparr>balance_1 := b1, balance_2 := b2\<rparr>)
                   price12 price21 out less_fees) (\<lambda>s'.
              Inr (s', sent, out))))))) (\<lambda>(s', sent, out).
     seq (Assert (out > 0)) (\<lambda>_.
     seq (Txn ctx) (\<lambda>t.
     seq (arg_uint t 1) (\<lambda>min_amount_to_swap_for.
     seq (Assert (out \<ge> min_amount_to_swap_for)) (\<lambda>_.
       Inr ((outcome_of s' [sent])
              \<lparr>swap_input_is_asset1_store := input_is_asset1,
               swap_fee_store := swap_fee,
               swap_input_amount_less_fees_store := less_fees,
               swap_output_amount_store := out\<rparr>)))))))))"

text \<open>The \<^verbatim>\<open>swap_fee\<close> expression of \<^verbatim>\<open>handle_swap_for_exact\<close>.\<close>

definition swap_fee_for_exact :: "pool \<Rightarrow> nat \<Rightarrow> error + nat" where
  "swap_fee_for_exact s required =
     seq (Minus FIXED_6_SCALE_FACTOR (swap_fee_pct_scaled_var s)) (\<lambda>d.
     seq (WideRatio required FIXED_6_SCALE_FACTOR d) (\<lambda>w.
     seq (Add w 1) (\<lambda>w1. Minus w1 required)))"

definition handle_swap_for_exact ::
    "call_context \<Rightarrow> pool \<Rightarrow> nat \<Rightarrow> nat \<Rightarrow> nat \<Rightarrow> bool \<Rightarrow> error + outcome" where
  "handle_swap_for_exact ctx s price12 price21 swap_input_amount input_is_asset1 =
     seq (Txn ctx) (\<lambda>t.
     seq (arg_uint t 1) (\<lambda>exact.
     seq (Assert (exact > 0)) (\<lambda>_.
     seq (if input_is_asset1 then swap_for_exact_asset2_amount s exact
          else swap_for_exact_asset1_amount s exact) (\<lambda>required.
     seq (Assert (required > 0)) (\<lambda>_.
     seq (swap_fee_for_exact s required) (\<lambda>swap_fee.
     seq (Add required swap_fee) (\<lambda>plus_fees.
     seq (Assert (swap_input_amount \<ge> plus_fees)) (\<lambda>_.
     seq (if input_is_asset1 then
            seq (Add (balance_1 s) plus_fees) (\<lambda>b1.
            seq (Minus (balance_2 s) exact) (\<lambda>b2.
            seq (send_asset2 ctx s exact) (\<lambda>sent.
            seq (save_latest_cumsum_volume (s\<lparr>balance_1 := b1, balance_2 := b2\<rparr>)
                   price12 price21 required exact) (\<lambda>s'.
              Inr (s', sent)))))
          else
            seq (Minus (balance_1 s) exact) (\<lambda>b1.
            seq (Add (balance_2 s) plus_fees) (\<lambda>b2.
            seq (send_asset1 ctx s exact) (\<lambda>sent.
            seq (save_latest_cumsum_volume (s\<lparr>balance_1 := b1, balance_2 := b2\<rparr>)
                   price12 price21 exact required) (\<lambda>s'.
              Inr (s', sent)))))) (\<lambda>(s', sent).
     seq (Minus swap_input_amount plus_fees) (\<lambda>residual.
       Inr ((outcome_of s' [sent])
              \<lparr>swap_input_is_asset1_store := input_is_asset1,
               swap_fee_store := swap_fee,
               residual_amount_store := residual\<rparr>)))))))))))"

definition on_swap :: "call_context \<Rightarrow> pool \<Rightarrow> error + outcome" where
  "on_swap ctx s =
     seq (save_latest_cumsum_time_weighted_price ctx s) (\<lambda>(s1, price12, price21).
     seq (update_reserve_factor ctx s1) (\<lambda>s2.
     seq (validate_asset_payment_txn ctx s2) (\<lambda>(swap_input_amount, input_is_asset1).
     seq (validate_noop_application_call ctx) (\<lambda>t.
     seq (arg t 0) (\<lambda>a0.
     seq (if a0 = swap_for_exact_str
          then verify_txn_is_named_application_call ctx (relative_index ctx 1)
                 redeem_swap_residual_str
          else Inr ()) (\<lambda>_.
     seq (if a0 = swap_for_exact_str
          then handle_swap_for_exact ctx s2 price12 price21 swap_input_amount input_is_asset1
          else handle_swap_exact_for ctx s2 price12 price21 swap_input_amount input_is_asset1)
       (\<lambda>out.
     seq (update_reserves input_is_asset1 (swap_fee_store out) (globals out)) (\<lambda>(s3, to_reserve).
     seq (validate_asset_ratio s3) (\<lambda>_.
       Inr (out\<lparr>globals := s3, fee_to_reserve_store := to_reserve\<rparr>))))))))))"

section \<open>pool.py: flash loans\<close>

text \<open>
  The pieces of \<^verbatim>\<open>on_flash_loan\<close> under the names the source gives its nested functions.
  \<open>loan_asset\<close> and \<open>loan\<close> are \<^verbatim>\<open>Btoi(Txn.application_args[1])\<close> and
  \<^verbatim>\<open>Btoi(Txn.application_args[2])\<close>.
\<close>

definition flash_loan_fee_calc :: "pool \<Rightarrow> nat \<Rightarrow> error + nat" where
  "flash_loan_fee_calc s loan =
     seq (WideRatio loan (flash_loan_fee s) FIXED_6_SCALE_FACTOR) (\<lambda>w. Add w 1)"

definition max_asset1_flash_loan :: "pool \<Rightarrow> error + nat" where
  "max_asset1_flash_loan s = WideRatio (balance_1 s) (max_flash_loan_ratio s) FIXED_6_SCALE_FACTOR"

definition max_asset2_flash_loan :: "pool \<Rightarrow> error + nat" where
  "max_asset2_flash_loan s = WideRatio (balance_2 s) (max_flash_loan_ratio s) FIXED_6_SCALE_FACTOR"

definition validate_flash_loan_txn ::
    "call_context \<Rightarrow> pool \<Rightarrow> txn \<Rightarrow> nat \<Rightarrow> error + nat" where
  "validate_flash_loan_txn ctx s t loan =
     seq (Assert (on_completion t = NoOp)) (\<lambda>_.
     seq (Assert (type_enum t = ApplicationCall)) (\<lambda>_.
     seq (Assert (group_index ctx = FLASH_LOAN_IDX)) (\<lambda>_.
     seq (arg_uint t 1) (\<lambda>loan_asset.
     seq (Assert (loan_asset = asset1_id s \<or> loan_asset = asset2_id s)) (\<lambda>_.
     seq (Assert (loan > 0)) (\<lambda>_.
     seq (if loan_asset = asset1_id s
          then seq (max_asset1_flash_loan s) (\<lambda>mx. Assert (loan \<le> mx))
          else seq (max_asset2_flash_loan s) (\<lambda>mx. Assert (loan \<le> mx))) (\<lambda>_.
       Inr loan_asset)))))))"

definition validate_flash_loan_repay_txn ::
    "call_context \<Rightarrow> nat \<Rightarrow> nat \<Rightarrow> nat \<Rightarrow> error + unit" where
  "validate_flash_loan_repay_txn ctx loan_asset loan loan_fee =
     (if loan_asset = 1 then
        seq (verify_txn_is_sending_algos_to_pool ctx (FLASH_LOAN_REPAY_IDX ctx)) (\<lambda>r.
        seq (Add loan loan_fee) (\<lambda>due. Assert (amount r = due)))
      else
        seq (verify_txn_is_sending_asa_to_pool ctx (FLASH_LOAN_REPAY_IDX ctx) loan_asset) (\<lambda>r.
        seq (Add loan loan_fee) (\<lambda>due. Assert (asset_amount r = due))))"

definition send_funds :: "call_context \<Rightarrow> pool \<Rightarrow> nat \<Rightarrow> nat \<Rightarrow> error + itxn" where
  "send_funds ctx s loan_asset loan =
     (if loan_asset = asset1_id s then send_asset1 ctx s loan else send_asset2 ctx s loan)"

definition flash_loan_update_balances :: "pool \<Rightarrow> nat \<Rightarrow> nat \<Rightarrow> error + pool \<times> nat" where
  "flash_loan_update_balances s loan_asset loan_fee =
     seq (if loan_asset = asset1_id s
          then seq (Add (balance_1 s) loan_fee) (\<lambda>b. Inr (s\<lparr>balance_1 := b\<rparr>))
          else seq (Add (balance_2 s) loan_fee) (\<lambda>b. Inr (s\<lparr>balance_2 := b\<rparr>)))
       (update_reserves (loan_asset = asset1_id s) loan_fee)"

definition on_flash_loan :: "call_context \<Rightarrow> pool \<Rightarrow> error + outcome" where
  "on_flash_loan ctx s =
     seq (update_reserve_factor ctx s) (\<lambda>s1.
     seq (update_flash_loan_fee ctx s1) (\<lambda>s2.
     seq (update_max_flash_loan_ratio ctx s2) (\<lambda>s3.
     seq (Txn ctx) (\<lambda>t.
     seq (arg_uint t 2) (\<lambda>loan.
     seq (flash_loan_fee_calc s3 loan) (\<lambda>loan_fee.
     seq (validate_flash_loan_txn ctx s3 t loan) (\<lambda>loan_asset.
     seq (validate_flash_loan_repay_txn ctx loan_asset loan loan_fee) (\<lambda>_.
     seq (send_funds ctx s3 loan_asset loan) (\<lambda>sent.
     seq (flash_loan_update_balances s3 loan_asset loan_fee) (\<lambda>(s4, to_reserve).
     seq (validate_asset_ratio s4) (\<lambda>_.
       Inr ((outcome_of s4 [sent])
              \<lparr>flash_loan_fee_store := loan_fee,
               fee_to_reserve_store := to_reserve\<rparr>))))))))))))"

section \<open>stable\_pool.py\<close>

definition get_amplification_factor :: "call_context \<Rightarrow> pool \<Rightarrow> error + nat" where
  "get_amplification_factor ctx s =
     interpolate_amplification_factor (latest_timestamp ctx)
       (initial_amplification_factor s) (future_amplification_factor s)
       (initial_amplification_factor_time s) (future_amplification_factor_time s)"

text \<open>\<^verbatim>\<open>D0_calc\<close>, \<^verbatim>\<open>D1_calc\<close> and the override of \<^verbatim>\<open>calculate_lp_issuance\<close>.\<close>

definition D0_calc :: "call_context \<Rightarrow> pool \<Rightarrow> error + nat" where
  "D0_calc ctx s =
     seq (get_amplification_factor ctx s) (compute_D (balance_1 s) (balance_2 s))"

definition D1_calc :: "call_context \<Rightarrow> pool \<Rightarrow> nat \<Rightarrow> nat \<Rightarrow> error + nat" where
  "D1_calc ctx s adjusted1 adjusted2 =
     seq (Add (balance_1 s) adjusted1) (\<lambda>x.
     seq (Add (balance_2 s) adjusted2) (\<lambda>y.
     seq (get_amplification_factor ctx s) (compute_D x y)))"

definition stable_calculate_lp_issuance ::
    "call_context \<Rightarrow> pool \<Rightarrow> bool \<Rightarrow> nat \<Rightarrow> nat \<Rightarrow> error + nat \<times> itxn list" where
  "stable_calculate_lp_issuance ctx s is_empty adjusted1 adjusted2 =
     (if is_empty then seq (D1_calc ctx s adjusted1 adjusted2) (\<lambda>D1. Inr (D1, []))
      else
        seq (Txn ctx) (\<lambda>t.
        seq (Mul 3 (min_txn_fee ctx)) (\<lambda>m.
        seq (Minus (fee t) m) (\<lambda>budget.
        seq (D0_calc ctx s) (\<lambda>D0.
        seq (D1_calc ctx s adjusted1 adjusted2) (\<lambda>D1.
        seq (Minus D1 D0) (\<lambda>dD.
        seq (WideRatio (lp_circulation s) dD D0) (\<lambda>lp_issued.
          Inr (lp_issued, op_up budget (manager_app_id ctx))))))))))"

definition stable_on_pool :: "call_context \<Rightarrow> pool \<Rightarrow> error + outcome" where
  "stable_on_pool = on_pool_with stable_calculate_lp_issuance"

definition on_ramp_amplification_factor :: "call_context \<Rightarrow> pool \<Rightarrow> error + pool" where
  "on_ramp_amplification_factor ctx s =
     seq (Txn ctx) (\<lambda>t.
     seq (Assert (sender t = admin s)) (\<lambda>_.
     seq (arg_uint t 2) (\<lambda>future_time.
     seq (Add (latest_timestamp ctx) (param_update_delay s)) (\<lambda>earliest.
     seq (Assert (future_time \<ge> earliest)) (\<lambda>_.
     seq (arg_uint t 1) (\<lambda>future_A.
     seq (Assert (future_A > 0)) (\<lambda>_.
     seq (Assert (future_A < MAX_AMPLIFICATION_FACTOR)) (\<lambda>_.
     seq (get_amplification_factor ctx s) (\<lambda>initial_A.
       Inr (s\<lparr>initial_amplification_factor := initial_A,
               future_amplification_factor := future_A,
               initial_amplification_factor_time := latest_timestamp ctx,
               future_amplification_factor_time := future_time\<rparr>))))))))))"

text \<open>
  Modelled from the spec: the host ledger is not among the sources. Section 7 has a
  failed call leave the state as if it had never been attempted; a call that succeeds
  leaves the state it computed.
\<close>

definition state_after :: "pool \<Rightarrow> error + pool \<Rightarrow> pool" where
  "state_after s r = (case r of Inl e \<Rightarrow> s | Inr s' \<Rightarrow> s')"

section \<open>Example transactions and states\<close>

text \<open>
  Concrete groups for the closed instances below. \<^verbatim>\<open>Itob\<close> is the 8-byte big-endian
  encoding a client uses for an integer argument.
\<close>

definition Itob :: "nat \<Rightarrow> string" where
  "Itob n = map (\<lambda>k. char_of (n div 256 ^ k)) [7, 6, 5, 4, 3, 2, 1, 0]"

definition payment :: "string \<Rightarrow> string \<Rightarrow> nat \<Rightarrow> txn" where
  "payment from to amt =
     \<lparr> sender = from, type_enum = Payment, on_completion = NoOp, application_id = 0,
       application_args = [], receiver = to, amount = amt, xfer_asset = 0,
       asset_receiver = [], asset_amount = 0, fee = 1000 \<rparr>"

definition asset_transfer :: "string \<Rightarrow> string \<Rightarrow> nat \<Rightarrow> nat \<Rightarrow> txn" where
  "asset_transfer from to asset amt =
     \<lparr> sender = from, type_enum = AssetTransfer, on_completion = NoOp, application_id = 0,
       application_args = [], receiver = [], amount = 0, xfer_asset = asset,
       asset_receiver = to, asset_amount = amt, fee = 1000 \<rparr>"

definition app_call :: "string \<Rightarrow> nat \<Rightarrow> string list \<Rightarrow> txn" where
  "app_call from app args =
     \<lparr> sender = from, type_enum = ApplicationCall, on_completion = NoOp,
       application_id = app, application_args = args, receiver = [], amount = 0,
       xfer_asset = 0, asset_receiver = [], asset_amount = 0, fee = 1000 \<rparr>"

text \<open>
  Application 77 with escrow address \<open>POOL\<close>, called at time 1000 as transaction \<open>i\<close>
  of the group, under the manager's default parameters (constants.py:
  \<^verbatim>\<open>DEFAULT_RESERVE_FACTOR\<close>, \<^verbatim>\<open>INIT_FLASH_LOAN_FEE\<close>, \<^verbatim>\<open>INIT_MAX_FLASH_LOAN_RATIO\<close>).
\<close>

definition example_call :: "txn list \<Rightarrow> nat \<Rightarrow> call_context" where
  "example_call g i =
     \<lparr> gtxns = g, group_index = i, current_application_id = 77,
       current_application_address = ''POOL'', latest_timestamp = 1000,
       min_txn_fee = 1000, min_balance = 100000, escrow_balance = 1000000000,
       manager_app_id = 70, manager_reserve_factor = Some 175000,
       manager_flash_loan_fee = Some 1000, manager_max_flash_loan_ratio = Some 100000 \<rparr>"

text \<open>
  An initialized pool of assets 5 and 9 with LP asset 33, the given balances and LP
  circulation, the default swap fee and update delay, and (for the stable pool) an
  amplification factor that stands at \<open>A\<close>.
\<close>

definition example_pool :: "nat \<Rightarrow> nat \<Rightarrow> nat \<Rightarrow> nat \<Rightarrow> pool" where
  "example_pool b1 b2 circ A =
     \<lparr> lp_id = 33, admin = ''ADMIN'', initialized = 1, asset1_id = 5, asset2_id = 9,
       balance_1 = b1, balance_2 = b2, lp_circulation = circ, reserve_factor = 175000,
       asset1_reserve = 0, asset2_reserve = 0,
       cumsum_time_weighted_asset1_to_asset2_price = 0,
       cumsum_time_weighted_asset2_to_asset1_price = 0, latest_time = 900,
       cumsum_volume_asset1 = 0, cumsum_volume_asset2 = 0,
       cumsum_volume_weighted_asset1_to_asset2_price = 0,
       cumsum_volume_weighted_asset2_to_asset1_price = 0,
       cumsum_fees_asset1 = 0, cumsum_fees_asset2 = 0, flash_loan_fee = 1000,
       max_flash_loan_ratio = 100000, swap_fee_pct_scaled_var = 2500,
       param_update_delay = 5, initial_amplification_factor = 0,
       future_amplification_factor = A, initial_amplification_factor_time = 0,
       future_amplification_factor_time = 0 \<rparr>"

definition ceil_ratio :: "nat \<Rightarrow> nat \<Rightarrow> nat \<Rightarrow> nat" where
  "ceil_ratio a b c = (a * b + c - 1) div c"

definition flash_loan_group :: "txn list" where
  "flash_loan_group =
     [app_call ''USER'' 77 [flash_loan_str, Itob 5, Itob 1000],
      asset_transfer ''USER'' ''POOL'' 5 1002]"

definition late_flash_loan_group :: "txn list" where
  "late_flash_loan_group =
     [payment ''USER'' ''OTHER'' 1,
      app_call ''USER'' 77 [flash_loan_str, Itob 5, Itob 1000],
      asset_transfer ''USER'' ''POOL'' 5 1002]"

text \<open>
  A deposit group (the two transfers, the \<open>p\<close> call with a slippage argument, the two
  residual redemptions), a burn group (the LP transfer and the paired burn calls) and a
  swap group (the input transfer and the \<open>s\<close> call with a minimum output).
\<close>

definition pool_group :: "nat \<Rightarrow> nat \<Rightarrow> txn list" where
  "pool_group a1 a2 =
     [asset_transfer ''USER'' ''POOL'' 5 a1, asset_transfer ''USER'' ''POOL'' 9 a2,
      app_call ''USER'' 77 [pool_str, Itob 10000],
      app_call ''USER'' 77 [redeem_pool_asset1_residual_str],
      app_call ''USER'' 77 [redeem_pool_asset2_residual_str]]"

definition burn_group :: "nat \<Rightarrow> txn list" where
  "burn_group lp =
     [asset_transfer ''USER'' ''POOL'' 33 lp,
      app_call ''USER'' 77 [burn_asset1_out_str],
      app_call ''USER'' 77 [burn_asset2_out_str]]"

definition swap_group :: "nat \<Rightarrow> nat \<Rightarrow> txn list" where
  "swap_group input min_out =
     [asset_transfer ''USER'' ''POOL'' 5 input,
      app_call ''USER'' 77 [swap_exact_for_str, Itob min_out]]"

text \<open>
  The two calls of one burn group, for stating the round trip: \<open>c1\<close> is the
  \<^verbatim>\<open>burn_asset1_out\<close> call and \<open>c2\<close> the \<^verbatim>\<open>burn_asset2_out\<close> call right after it in the same
  group (of at most 16 transactions, the ledger's limit), both to this application, and
  the transaction before them transfers \<open>lp_amount\<close> of the LP asset to the escrow.
\<close>

definition is_named_call :: "call_context \<Rightarrow> txn \<Rightarrow> string \<Rightarrow> bool" where
  "is_named_call ctx t name =
     (type_enum t = ApplicationCall \<and> on_completion t = NoOp \<and>
      application_id t = current_application_id ctx \<and>
      application_args t \<noteq> [] \<and> hd (application_args t) = name)"

definition burn_pair :: "call_context \<Rightarrow> call_context \<Rightarrow> nat \<Rightarrow> nat \<Rightarrow> bool" where
  "burn_pair c1 c2 lp_asset lp_amount =
     (group_index c1 \<ge> 1 \<and> group_index c2 = group_index c1 + 1 \<and>
      group_index c2 < length (gtxns c1) \<and> length (gtxns c1) \<le> 16 \<and>
      gtxns c2 = gtxns c1 \<and>
      current_application_id c2 = current_application_id c1 \<and>
      current_application_address c2 = current_application_address c1 \<and>
      type_enum (gtxns c1 ! (group_index c1 - 1)) = AssetTransfer \<and>
      xfer_asset (gtxns c1 ! (group_index c1 - 1)) = lp_asset \<and>
      asset_receiver (gtxns c1 ! (group_index c1 - 1)) = current_application_address c1 \<and>
      asset_amount (gtxns c1 ! (group_index c1 - 1)) = lp_amount \<and>
      is_named_call c1 (gtxns c1 ! group_index c1) burn_asset1_out_str \<and>
      is_named_call c1 (gtxns c1 ! group_index c2) burn_asset2_out_str)"

section \<open>Basic facts\<close>

lemma seq_Inr [simp]: "seq (Inr x) f = f x"
  by (simp add: seq_def)

lemma seq_Inl [simp]: "seq (Inl e) f = Inl e"
  by (simp add: seq_def)

lemma seq_eq_Inr: "seq m f = Inr y \<longleftrightarrow> (\<exists>x. m = Inr x \<and> f x = Inr y)"
  by (cases m) simp_all

lemma seqE:
  assumes "seq m f = Inr y"
  obtains x where "m = Inr x" and "f x = Inr y"
  using assms by (auto simp: seq_eq_Inr)

lemma seq_assoc: "seq (seq m f) g = seq m (\<lambda>x. seq (f x) g)"
  by (cases m) simp_all

text \<open>
  With this congruence rule the simplifier evaluates the first computation of a
  \<open>seq\<close> before it looks at the continuation.
\<close>

lemma seq_weak_cong: "m = m' \<Longrightarrow> seq m f = seq m' f"
  by simp

lemmas arith_defs = Add_def Minus_def Mul_def Div_def WideRatio_def MAX_INT_U64_def
  FIXED_6_SCALE_FACTOR_def FIXED_9_SCALE_FACTOR_def

lemmas bytes_defs = BytesAdd_def BytesMinus_def BytesMul_def BytesDiv_def BytesGt_def
  BytesLe_def Btoi_def bytes_ok_def

lemma Assert_eq_Inr [simp]: "Assert c = Inr u \<longleftrightarrow> c"
  by (simp add: Assert_def)

lemma Assert_True [simp]: "Assert True = Inr ()"
  by (simp add: Assert_def)

lemma Assert_False [simp]: "Assert False = Inl AssertFailed"
  by (simp add: Assert_def)

lemma two_64: "(2::nat) ^ 64 = 18446744073709551616"
  by simp

section \<open>The wrapped accumulator (subroutines.py)\<close>

lemma wrapped_value_eq:
  assumes "u64 current" "u64 addend"
  shows "calculate_integer_wrapped_value current addend = Inr ((current + addend) mod 2 ^ 64)"
proof (cases "addend > MAX_INT_U64 - current")
  case True
  with assms have "current + addend \<ge> 2 ^ 64" "current + addend < 2 * 2 ^ 64"
    by (simp_all add: u64_def MAX_INT_U64_def)
  then have m: "(current + addend) mod 2 ^ 64 = current + addend - 2 ^ 64"
    by (simp add: mod_if le_mod_geq)
  from True assms show ?thesis
    unfolding m calculate_integer_wrapped_value_def
    by (auto simp add: Minus_def u64_def MAX_INT_U64_def)
next
  case False
  with assms have "current + addend < 2 ^ 64"
    by (simp add: u64_def MAX_INT_U64_def)
  with False assms show ?thesis
    by (simp add: calculate_integer_wrapped_value_def Minus_def Add_def u64_def MAX_INT_U64_def)
qed

lemma wrapped_accumulate_eq:
  "u64 current \<Longrightarrow> \<forall>a \<in> set as. u64 a \<Longrightarrow>
   wrapped_accumulate current as = Inr ((current + sum_list as) mod 2 ^ 64)"
proof (induction as arbitrary: current)
  case Nil
  then show ?case by (simp add: u64_def MAX_INT_U64_def)
next
  case (Cons a as)
  have u: "u64 ((current + a) mod 2 ^ 64)"
    by (simp add: u64_def MAX_INT_U64_def less_Suc_eq_le [symmetric])
  have "wrapped_accumulate current (a # as)
        = wrapped_accumulate ((current + a) mod 2 ^ 64) as"
    using Cons.prems by (simp add: wrapped_value_eq)
  also have "\<dots> = Inr (((current + a) mod 2 ^ 64 + sum_list as) mod 2 ^ 64)"
    using Cons.prems by (intro Cons.IH [OF u]) simp
  also have "((current + a) mod 2 ^ 64 + sum_list as) mod 2 ^ 64
             = (current + sum_list (a # as)) mod 2 ^ 64"
    by (simp add: mod_add_left_eq add.assoc)
  finally show ?case .
qed

text \<open>
  Claim C6. For all 64-bit \<open>current\<close> and \<open>addend\<close> the wrapped accumulator returns
  \<open>addend - (MAX - current) - 1\<close> when \<open>current + addend\<close> exceeds \<open>MAX = 2^64 - 1\<close>
  and \<open>current + addend\<close> otherwise; this is \<open>(current + addend) mod 2^64\<close>, never above
  \<open>MAX\<close>, and feeding it further 64-bit addends one after another yields the true sum
  modulo \<open>2^64\<close>.
\<close>

theorem wrapped_add_mod:
  assumes "u64 current" and "u64 addend" and "list_all u64 addends"
  shows "calculate_integer_wrapped_value current addend =
           Inr (if current + addend > MAX_INT_U64
                then addend - (MAX_INT_U64 - current) - 1 else current + addend)
       \<and> calculate_integer_wrapped_value current addend = Inr ((current + addend) mod 2 ^ 64)
       \<and> (current + addend) mod 2 ^ 64 \<le> MAX_INT_U64
       \<and> wrapped_accumulate current (addend # addends)
           = Inr ((current + addend + sum_list addends) mod 2 ^ 64)"
proof -
  have eq: "calculate_integer_wrapped_value current addend = Inr ((current + addend) mod 2 ^ 64)"
    using assms by (simp add: wrapped_value_eq)
  have branch: "(current + addend) mod 2 ^ 64 =
      (if current + addend > MAX_INT_U64
       then addend - (MAX_INT_U64 - current) - 1 else current + addend)"
  proof (cases "current + addend > MAX_INT_U64")
    case True
    with assms have "current + addend \<ge> 2 ^ 64" "current + addend < 2 * 2 ^ 64"
      by (simp_all add: u64_def MAX_INT_U64_def)
    then have "(current + addend) mod 2 ^ 64 = current + addend - 2 ^ 64"
      by (simp add: mod_if le_mod_geq)
    with True assms show ?thesis
      by (simp add: u64_def MAX_INT_U64_def)
  next
    case False
    then show ?thesis by (simp add: MAX_INT_U64_def)
  qed
  have bound: "(current + addend) mod 2 ^ 64 \<le> MAX_INT_U64"
    by (simp add: MAX_INT_U64_def less_Suc_eq_le [symmetric])
  have "\<forall>a \<in> set (addend # addends). u64 a"
    using assms by (simp add: list_all_iff)
  then have acc: "wrapped_accumulate current (addend # addends)
      = Inr ((current + sum_list (addend # addends)) mod 2 ^ 64)"
    using assms(1) by (rule wrapped_accumulate_eq [rotated])
  show ?thesis
    using eq branch bound acc by (simp add: add.assoc)
qed

theorem wrapped_add_mod_witness:
  "calculate_integer_wrapped_value 18446744073709551615 5 = Inr 4
   \<and> wrapped_accumulate 18446744073709551615 [5, 18446744073709551615, 7] = Inr 10"
proof -
  have "u64 18446744073709551615" "u64 5" "list_all u64 [18446744073709551615, 7]"
    by (simp_all add: u64_def MAX_INT_U64_def)
  from wrapped_add_mod [OF this] show ?thesis
    by (simp del: wrapped_accumulate.simps add: MAX_INT_U64_def)
qed

section \<open>The invariant solver (stable\_swap\_math.py)\<close>

lemmas D_defs = Ann_calc_def AnnS_calc_def D_prod_denom_calc_def D_prod_calc_def
  D_estimate_num_calc_def D_estimate_denom_calc_def D_estimate_calc_def

lemma computed_simps [simp]: "computed (Inr v)" "\<not> computed (Inl e)"
  by (simp_all add: computed_def)

lemma BytesDiv_bytes_ok: "BytesDiv a b = Inr q \<Longrightarrow> bytes_ok q"
  by (auto simp: BytesDiv_def bytes_ok_def split: if_splits intro: le_less_trans [OF div_le_dividend])

lemma D_round_bytes_ok: "D_round A AnnS dpd d = Inr d' \<Longrightarrow> bytes_ok d'"
  by (auto simp: D_round_def D_estimate_calc_def seq_eq_Inr dest: BytesDiv_bytes_ok)

lemma bytes_not_assert:
  "BytesMul a b \<noteq> Inl AssertFailed" "BytesAdd a b \<noteq> Inl AssertFailed"
  "BytesDiv a b \<noteq> Inl AssertFailed" "Mul a b \<noteq> Inl AssertFailed"
  "Minus a b \<noteq> Inl AssertFailed" "Add a b \<noteq> Inl AssertFailed"
  by (simp_all add: bytes_defs arith_defs)

lemma seq_not_assert:
  "m \<noteq> Inl AssertFailed \<Longrightarrow> (\<And>x. f x \<noteq> Inl AssertFailed) \<Longrightarrow> seq m f \<noteq> Inl AssertFailed"
  by (cases m) simp_all

lemma D_round_not_assert: "D_round A AnnS dpd d \<noteq> Inl AssertFailed"
  unfolding D_round_def D_defs
  by (intro seq_not_assert bytes_not_assert)

lemma AnnS_calc_not_assert: "AnnS_calc x y A \<noteq> Inl AssertFailed"
  unfolding D_defs by (intro seq_not_assert bytes_not_assert)

lemma D_prod_denom_calc_not_assert: "D_prod_denom_calc x y \<noteq> Inl AssertFailed"
  unfolding D_defs by (intro seq_not_assert bytes_not_assert)

lemma loop_step:
  "i < 255 \<Longrightarrow> compute_D_loop A AnnS dpd d i =
     seq (D_round A AnnS dpd d) (\<lambda>D_new.
     seq (BytesGt D_new d) (\<lambda>gt.
     seq (if gt then BytesMinus D_new d else BytesMinus d D_new) (\<lambda>diff.
     seq (BytesLe diff 1) (\<lambda>le.
       if le then Btoi D_new else compute_D_loop A AnnS dpd D_new (i + 1)))))"
  by (subst compute_D_loop.simps) (simp add: D_round_def seq_assoc)

lemma loop_step_ok:
  assumes "i < 255" "bytes_ok d" "D_round A AnnS dpd d = Inr d'"
  shows "compute_D_loop A AnnS dpd d i =
           (if within_one d' d then Btoi d' else compute_D_loop A AnnS dpd d' (i + 1))"
proof -
  have ok: "bytes_ok d'" using assms(3) by (rule D_round_bytes_ok)
  have small: "bytes_ok (d' - d)" "bytes_ok (d - d')" "bytes_ok 1"
    using ok assms(2) by (simp_all add: bytes_ok_def)
  show ?thesis
    using assms ok small
    by (simp add: loop_step BytesGt_def BytesMinus_def BytesLe_def within_one_def)
qed

lemma loop_step_fail:
  "i < 255 \<Longrightarrow> D_round A AnnS dpd d = Inl e \<Longrightarrow> compute_D_loop A AnnS dpd d i = Inl e"
  by (simp add: loop_step)

lemma loop_end: "\<not> i < 255 \<Longrightarrow> compute_D_loop A AnnS dpd d i = Inl AssertFailed"
  by (subst compute_D_loop.simps) simp

lemma rounds_prefix:
  "D_rounds A AnnS dpd S k = Inr a \<Longrightarrow> j \<le> k \<Longrightarrow> \<exists>b. D_rounds A AnnS dpd S j = Inr b"
proof (induction k arbitrary: a)
  case 0
  then show ?case by simp
next
  case (Suc k)
  show ?case
  proof (cases "j = Suc k")
    case True
    with Suc.prems show ?thesis by blast
  next
    case False
    with Suc.prems have "j \<le> k" by simp
    moreover from Suc.prems(1) obtain c where "D_rounds A AnnS dpd S k = Inr c"
      by (auto simp: seq_eq_Inr)
    ultimately show ?thesis by (rule Suc.IH [rotated])
  qed
qed

lemma rounds_bytes_ok:
  "bytes_ok S \<Longrightarrow> D_rounds A AnnS dpd S k = Inr a \<Longrightarrow> bytes_ok a"
  by (cases k) (auto simp: seq_eq_Inr dest: D_round_bytes_ok)

lemma loop_converges:
  assumes "bytes_ok S" "k < 255"
    and "rounds_converged A AnnS dpd S k"
  shows "D_rounds A AnnS dpd S i = Inr d \<Longrightarrow> i \<le> k \<Longrightarrow>
         (\<forall>j. i \<le> j \<and> j < k \<longrightarrow> \<not> rounds_converged A AnnS dpd S j) \<Longrightarrow>
         compute_D_loop A AnnS dpd d i = seq (D_rounds A AnnS dpd S (Suc k)) Btoi"
proof (induction "k - i" arbitrary: i d)
  case 0
  then have ik: "i = k" by simp
  from assms(3) 0(2) ik obtain b where b: "D_rounds A AnnS dpd S (Suc k) = Inr b" "within_one b d"
    by (auto simp: rounds_converged_def split: sum.splits)
  from b(1) 0(2) ik have r: "D_round A AnnS dpd d = Inr b" by simp
  have "bytes_ok d" using assms(1) 0(2) by (rule rounds_bytes_ok)
  with assms(2) ik r b show ?case by (simp add: loop_step_ok)
next
  case (Suc n)
  then have lt: "i < k" by simp
  from assms(3) obtain a where "D_rounds A AnnS dpd S k = Inr a"
    by (auto simp: rounds_converged_def split: sum.splits)
  with lt obtain d' where d': "D_rounds A AnnS dpd S (Suc i) = Inr d'"
    using rounds_prefix [of A AnnS dpd S k a "Suc i"] by auto
  with Suc.prems(1) have r: "D_round A AnnS dpd d = Inr d'" by simp
  from Suc.prems(3) lt have "\<not> rounds_converged A AnnS dpd S i" by simp
  with Suc.prems(1) d' have nw: "\<not> within_one d' d"
    by (simp add: rounds_converged_def)
  have okd: "bytes_ok d" using assms(1) Suc.prems(1) by (rule rounds_bytes_ok)
  from lt assms(2) have i255: "i < 255" by simp
  have "compute_D_loop A AnnS dpd d i = compute_D_loop A AnnS dpd d' (i + 1)"
    using i255 okd r nw by (simp add: loop_step_ok)
  also have "\<dots> = seq (D_rounds A AnnS dpd S (Suc k)) Btoi"
  proof (rule Suc.hyps(1))
    show "n = k - (i + 1)" using Suc.hyps(2) by simp
    show "D_rounds A AnnS dpd S (i + 1) = Inr d'" using d' by simp
    show "i + 1 \<le> k" using lt by simp
    show "\<forall>j. i + 1 \<le> j \<and> j < k \<longrightarrow> \<not> rounds_converged A AnnS dpd S j"
      using Suc.prems(3) by simp
  qed
  finally show ?case .
qed

lemma loop_diverges:
  assumes "bytes_ok S"
  shows "D_rounds A AnnS dpd S i = Inr d \<Longrightarrow> i \<le> 255 \<Longrightarrow>
         (\<forall>j. i \<le> j \<and> j < 255 \<longrightarrow> \<not> rounds_converged A AnnS dpd S j) \<Longrightarrow>
         (\<exists>e. compute_D_loop A AnnS dpd d i = Inl e) \<and>
         (compute_D_loop A AnnS dpd d i = Inl AssertFailed \<longleftrightarrow>
            (\<forall>j. i \<le> j \<and> j \<le> 255 \<longrightarrow> computed (D_rounds A AnnS dpd S j)))"
proof (induction "255 - i" arbitrary: i d)
  case 0
  then have i: "i = 255" by simp
  have "computed (D_rounds A AnnS dpd S j)" if "i \<le> j \<and> j \<le> 255" for j
  proof -
    from that i have "j = i" by simp
    then show ?thesis using 0(2) by simp
  qed
  moreover have "compute_D_loop A AnnS dpd d i = Inl AssertFailed"
    using i by (simp add: loop_end)
  ultimately show ?case by blast
next
  case (Suc n)
  then have lt: "i < 255" by simp
  have okd: "bytes_ok d" using assms Suc.prems(1) by (rule rounds_bytes_ok)
  have next_eq: "D_rounds A AnnS dpd S (Suc i) = D_round A AnnS dpd d"
    using Suc.prems(1) by simp
  show ?case
  proof (cases "D_round A AnnS dpd d")
    case (Inl e)
    then have l: "compute_D_loop A AnnS dpd d i = Inl e"
      using lt by (simp add: loop_step_fail)
    have ne: "e \<noteq> AssertFailed" using Inl D_round_not_assert [of A AnnS dpd d] by auto
    have "\<not> computed (D_rounds A AnnS dpd S (Suc i))" using next_eq Inl by simp
    moreover have "i \<le> Suc i \<and> Suc i \<le> 255" using lt by simp
    ultimately have "\<not> (\<forall>j. i \<le> j \<and> j \<le> 255 \<longrightarrow> computed (D_rounds A AnnS dpd S j))"
      by blast
    with l ne show ?thesis by simp
  next
    case (Inr d')
    from Suc.prems(3) lt have "\<not> rounds_converged A AnnS dpd S i" by simp
    with Suc.prems(1) next_eq Inr have nw: "\<not> within_one d' d"
      by (simp add: rounds_converged_def)
    have step: "compute_D_loop A AnnS dpd d i = compute_D_loop A AnnS dpd d' (i + 1)"
      using lt okd Inr nw by (simp add: loop_step_ok)
    have ih: "(\<exists>e. compute_D_loop A AnnS dpd d' (i + 1) = Inl e) \<and>
         (compute_D_loop A AnnS dpd d' (i + 1) = Inl AssertFailed \<longleftrightarrow>
            (\<forall>j. i + 1 \<le> j \<and> j \<le> 255 \<longrightarrow> computed (D_rounds A AnnS dpd S j)))"
    proof (rule Suc.hyps(1))
      show "n = 255 - (i + 1)" using Suc.hyps(2) by simp
      show "D_rounds A AnnS dpd S (i + 1) = Inr d'" using next_eq Inr by simp
      show "i + 1 \<le> 255" using lt by simp
      show "\<forall>j. i + 1 \<le> j \<and> j < 255 \<longrightarrow> \<not> rounds_converged A AnnS dpd S j"
        using Suc.prems(3) by simp
    qed
    have "(\<forall>j. i \<le> j \<and> j \<le> 255 \<longrightarrow> computed (D_rounds A AnnS dpd S j)) \<longleftrightarrow>
          (\<forall>j. i + 1 \<le> j \<and> j \<le> 255 \<longrightarrow> computed (D_rounds A AnnS dpd S j))"
    proof
      assume "\<forall>j. i \<le> j \<and> j \<le> 255 \<longrightarrow> computed (D_rounds A AnnS dpd S j)"
      then show "\<forall>j. i + 1 \<le> j \<and> j \<le> 255 \<longrightarrow> computed (D_rounds A AnnS dpd S j)" by simp
    next
      assume r: "\<forall>j. i + 1 \<le> j \<and> j \<le> 255 \<longrightarrow> computed (D_rounds A AnnS dpd S j)"
      show "\<forall>j. i \<le> j \<and> j \<le> 255 \<longrightarrow> computed (D_rounds A AnnS dpd S j)"
      proof (intro allI impI)
        fix j assume j: "i \<le> j \<and> j \<le> 255"
        show "computed (D_rounds A AnnS dpd S j)"
        proof (cases "j = i")
          case True
          then show ?thesis using Suc.prems(1) by simp
        next
          case False
          with j have "i + 1 \<le> j \<and> j \<le> 255" by simp
          with r show ?thesis by blast
        qed
      qed
    qed
    with ih show ?thesis unfolding step by blast
  qed
qed

lemma estimate_at_eq:
  "Add x y = Inr S \<Longrightarrow> AnnS_calc x y A = Inr AnnS \<Longrightarrow> D_prod_denom_calc x y = Inr dpd \<Longrightarrow>
   D_estimate_at x y A k = D_rounds A AnnS dpd S k"
  by (simp add: D_estimate_at_def)

lemma converged_at_eq:
  assumes "Add x y = Inr S" "AnnS_calc x y A = Inr AnnS" "D_prod_denom_calc x y = Inr dpd"
  shows "converged_at x y A k = rounds_converged A AnnS dpd S k"
  unfolding converged_at_def rounds_converged_def estimate_at_eq [OF assms] by (rule refl)

lemma estimate_at_fail:
  "Add x y = Inl e \<or> (\<exists>S. Add x y = Inr S \<and> (AnnS_calc x y A = Inl e \<or>
     (\<exists>AnnS. AnnS_calc x y A = Inr AnnS \<and> D_prod_denom_calc x y = Inl e))) \<Longrightarrow>
   D_estimate_at x y A k = Inl e"
  by (auto simp: D_estimate_at_def)

lemma compute_D_fail:
  assumes "x + y \<noteq> 0"
    and "Add x y = Inl e \<or> (\<exists>S. Add x y = Inr S \<and> (AnnS_calc x y A = Inl e \<or>
     (\<exists>AnnS. AnnS_calc x y A = Inr AnnS \<and> D_prod_denom_calc x y = Inl e)))"
  shows "compute_D x y A = Inl e" "e \<noteq> AssertFailed" "\<not> converged_at x y A k"
    "\<not> computed (D_estimate_at x y A 0)"
proof -
  have est: "D_estimate_at x y A j = Inl e" for j
    using assms(2) by (rule estimate_at_fail)
  show "\<not> converged_at x y A k" by (simp add: converged_at_def est)
  show "\<not> computed (D_estimate_at x y A 0)" by (simp add: est)
  show "e \<noteq> AssertFailed"
    using assms(2) bytes_not_assert(6) [of x y] AnnS_calc_not_assert [of x y A]
      D_prod_denom_calc_not_assert [of x y]
    by auto
  show "compute_D x y A = Inl e"
    using assms by (auto simp: compute_D_def Add_def split: if_splits)
qed

text \<open>
  Claim C7. \<^verbatim>\<open>compute_D(x, y, A)\<close> returns 0 when \<open>x + y = 0\<close>. Otherwise the estimates
  start at \<open>x + y\<close>; if round \<open>k < 255\<close> is the first whose new estimate is within 1 of
  the previous one, the call returns that new estimate (through \<^verbatim>\<open>Btoi\<close>); and if none of
  the 255 rounds is, the call fails, by the final assertion exactly when all 255 rounds
  could be computed.
\<close>

theorem compute_D_rounds:
  "(x + y = 0 \<longrightarrow> compute_D x y A = Inr 0) \<and>
   (x + y \<noteq> 0 \<and> k < 255 \<and> converged_at x y A k \<and> (\<forall>j<k. \<not> converged_at x y A j)
      \<longrightarrow> D_estimate_at x y A 0 = Inr (x + y) \<and>
          compute_D x y A = seq (D_estimate_at x y A (Suc k)) Btoi) \<and>
   (x + y \<noteq> 0 \<and> (\<forall>j<255. \<not> converged_at x y A j)
      \<longrightarrow> (\<exists>e. compute_D x y A = Inl e) \<and>
          (compute_D x y A = Inl AssertFailed \<longleftrightarrow>
             (\<forall>j\<le>255. computed (D_estimate_at x y A j))))"
proof (intro conjI impI)
  assume "x + y = 0"
  then show "compute_D x y A = Inr 0"
    by (simp add: compute_D_def Add_def)
next
  assume h: "x + y \<noteq> 0 \<and> k < 255 \<and> converged_at x y A k \<and> (\<forall>j<k. \<not> converged_at x y A j)"
  then obtain a where a: "D_estimate_at x y A k = Inr a"
    by (auto simp: converged_at_def split: sum.splits)
  then obtain S AnnS dpd where ok: "Add x y = Inr S" "AnnS_calc x y A = Inr AnnS"
      "D_prod_denom_calc x y = Inr dpd"
    by (auto simp: D_estimate_at_def seq_eq_Inr)
  from ok(1) have S: "S = x + y" "bytes_ok S"
    by (auto simp: Add_def MAX_INT_U64_def bytes_ok_def split: if_splits)
  have conv: "rounds_converged A AnnS dpd S k"
    using h ok by (simp add: converged_at_eq)
  have nconv: "\<forall>j. 0 \<le> j \<and> j < k \<longrightarrow> \<not> rounds_converged A AnnS dpd S j"
    using h ok by (simp add: converged_at_eq)
  have "compute_D x y A = compute_D_loop A AnnS dpd S 0"
    unfolding compute_D_def ok(1) seq_Inr using h S(1) ok(2,3) by auto
  also have "\<dots> = seq (D_rounds A AnnS dpd S (Suc k)) Btoi"
    using S(2) _ conv _ _ nconv by (rule loop_converges) (use h in simp_all)
  finally show "compute_D x y A = seq (D_estimate_at x y A (Suc k)) Btoi"
    using ok by (simp add: estimate_at_eq)
  show "D_estimate_at x y A 0 = Inr (x + y)"
    using ok S by (simp add: estimate_at_eq)
next
  assume h: "x + y \<noteq> 0 \<and> (\<forall>j<255. \<not> converged_at x y A j)"
  show "\<exists>e. compute_D x y A = Inl e"
  proof (cases "\<exists>S AnnS dpd. Add x y = Inr S \<and> AnnS_calc x y A = Inr AnnS \<and>
      D_prod_denom_calc x y = Inr dpd")
    case True
    then obtain S AnnS dpd where ok: "Add x y = Inr S" "AnnS_calc x y A = Inr AnnS"
      "D_prod_denom_calc x y = Inr dpd" by blast
    from ok(1) have S: "S = x + y" "bytes_ok S"
      by (auto simp: Add_def MAX_INT_U64_def bytes_ok_def split: if_splits)
    have nconv: "\<forall>j. 0 \<le> j \<and> j < 255 \<longrightarrow> \<not> rounds_converged A AnnS dpd S j"
      using h ok by (simp add: converged_at_eq)
    have "compute_D x y A = compute_D_loop A AnnS dpd S 0"
      unfolding compute_D_def ok(1) seq_Inr using h S(1) ok(2,3) by auto
    moreover have "\<exists>e. compute_D_loop A AnnS dpd S 0 = Inl e"
      using loop_diverges [OF S(2) _ _ nconv, of S] by simp
    ultimately show ?thesis by simp
  next
    case False
    then obtain e where "Add x y = Inl e \<or> (\<exists>S. Add x y = Inr S \<and> (AnnS_calc x y A = Inl e \<or>
     (\<exists>AnnS. AnnS_calc x y A = Inr AnnS \<and> D_prod_denom_calc x y = Inl e)))"
      by (cases "Add x y"; cases "AnnS_calc x y A"; cases "D_prod_denom_calc x y") auto
    with h show ?thesis using compute_D_fail(1) by blast
  qed
  show "compute_D x y A = Inl AssertFailed \<longleftrightarrow> (\<forall>j\<le>255. computed (D_estimate_at x y A j))"
  proof (cases "\<exists>S AnnS dpd. Add x y = Inr S \<and> AnnS_calc x y A = Inr AnnS \<and>
      D_prod_denom_calc x y = Inr dpd")
    case True
    then obtain S AnnS dpd where ok: "Add x y = Inr S" "AnnS_calc x y A = Inr AnnS"
      "D_prod_denom_calc x y = Inr dpd" by blast
    from ok(1) have S: "S = x + y" "bytes_ok S"
      by (auto simp: Add_def MAX_INT_U64_def bytes_ok_def split: if_splits)
    have nconv: "\<forall>j. 0 \<le> j \<and> j < 255 \<longrightarrow> \<not> rounds_converged A AnnS dpd S j"
      using h ok by (simp add: converged_at_eq)
    have "compute_D x y A = compute_D_loop A AnnS dpd S 0"
      unfolding compute_D_def ok(1) seq_Inr using h S(1) ok(2,3) by auto
    moreover have "compute_D_loop A AnnS dpd S 0 = Inl AssertFailed \<longleftrightarrow>
            (\<forall>j. 0 \<le> j \<and> j \<le> 255 \<longrightarrow> computed (D_rounds A AnnS dpd S j))"
      using loop_diverges [OF S(2) _ _ nconv, of S] by simp
    ultimately show ?thesis using ok by (simp add: estimate_at_eq)
  next
    case False
    then obtain e where e: "Add x y = Inl e \<or> (\<exists>S. Add x y = Inr S \<and> (AnnS_calc x y A = Inl e \<or>
     (\<exists>AnnS. AnnS_calc x y A = Inr AnnS \<and> D_prod_denom_calc x y = Inl e)))"
      by (cases "Add x y"; cases "AnnS_calc x y A"; cases "D_prod_denom_calc x y") auto
    from h have nz: "x + y \<noteq> 0" by simp
    have "compute_D x y A \<noteq> Inl AssertFailed"
      using compute_D_fail(1,2) [OF nz e] by simp
    moreover have "\<not> (\<forall>j\<le>255. computed (D_estimate_at x y A j))"
      using compute_D_fail(4) [OF nz e] by blast
    ultimately show ?thesis by simp
  qed
qed

lemma D_round_zero_denom: "\<exists>e. D_round A AnnS 0 d = Inl e"
  by (simp add: D_round_def D_prod_calc_def BytesMul_def BytesDiv_def)

lemma estimates_1000_3000:
  "D_estimate_at 1000 3000 1000000 0 = Inr 4000"
  "D_estimate_at 1000 3000 1000000 (Suc 0) = Inr 3809"
  "D_estimate_at 1000 3000 1000000 (Suc (Suc 0)) = Inr 3804"
  "D_estimate_at 1000 3000 1000000 (Suc (Suc (Suc 0))) = Inr 3804"
  by (simp_all add: D_estimate_at_def D_round_def D_defs arith_defs bytes_defs cong: seq_weak_cong)

lemma estimates_0_5: "\<not> computed (D_estimate_at 0 5 1000000 (Suc j))"
proof -
  have "D_estimate_at 0 5 1000000 (Suc j) =
      seq (D_rounds 1000000 20 0 5 j) (D_round 1000000 20 0)"
    by (simp add: D_estimate_at_def D_defs arith_defs bytes_defs cong: seq_weak_cong)
  moreover have "\<not> computed (D_round 1000000 20 0 d)" for d
    using D_round_zero_denom [of 1000000 20 d] by auto
  ultimately show ?thesis
    by (cases "D_rounds 1000000 20 0 5 j") auto
qed

theorem compute_D_rounds_witness:
  "compute_D 0 0 1000000 = Inr 0 \<and>
   compute_D 1000 3000 1000000 = Inr 3804 \<and>
   (\<exists>e. compute_D 0 5 1000000 = Inl e \<and> e \<noteq> AssertFailed) \<and>
   \<not> (\<forall>j\<le>255. computed (D_estimate_at 0 5 1000000 j))"
proof -
  have a: "compute_D 0 0 1000000 = Inr 0"
    using compute_D_rounds [of 0 0 1000000 0] by simp
  have conv: "converged_at 1000 3000 1000000 (Suc (Suc 0))"
    "\<forall>j<Suc (Suc 0). \<not> converged_at 1000 3000 1000000 j"
    by (auto simp: converged_at_def estimates_1000_3000 within_one_def less_Suc_eq)
  have b: "compute_D 1000 3000 1000000 = Inr 3804"
    using compute_D_rounds [of 1000 3000 1000000 "Suc (Suc 0)"] conv
    by (simp add: estimates_1000_3000 Btoi_def MAX_INT_U64_def)
  have "\<not> converged_at 0 5 1000000 j" for j
    using estimates_0_5 [of j] by (auto simp: converged_at_def split: sum.splits)
  then have nconv: "\<forall>j<255. \<not> converged_at 0 5 1000000 j"
    by simp
  have nall: "\<not> (\<forall>j\<le>255. computed (D_estimate_at 0 5 1000000 j))"
    using estimates_0_5 [of 0] by (auto intro!: exI [of _ "Suc 0"])
  have c: "\<exists>e. compute_D 0 5 1000000 = Inl e \<and> e \<noteq> AssertFailed"
    using compute_D_rounds [of 0 5 1000000 0] nconv nall by auto
  from a b c nall show ?thesis by blast
qed

section \<open>Amplification ramp (stable\_pool.py)\<close>

lemmas example_defs = example_call_def example_pool_def payment_def asset_transfer_def
  app_call_def Itob_def

lemmas group_defs = Gtxn_def Txn_def arg_def arg_uint_def btoi_bytes_def relative_index_def

text \<open>
  Claim C8. \<^verbatim>\<open>on_ramp_amplification_factor\<close> succeeds exactly when the sender is the admin,
  the two arguments decode, \<open>future_time \<ge> now + param_update_delay\<close> (a sum that fits in
  64 bits), \<open>0 < future_A < 400000000\<close>, and the current amplification factor can be
  interpolated; it then stores that interpolated factor as the initial factor, the
  current time as its time, and the arguments as the future factor and time. A failed
  call leaves the state as it was.
\<close>

theorem ramp_amplification_factor:
  "(on_ramp_amplification_factor ctx s = Inr s' \<longleftrightarrow>
      (\<exists>t future_A future_time initial_A.
         Txn ctx = Inr t \<and> sender t = admin s \<and>
         arg_uint t 1 = Inr future_A \<and> arg_uint t 2 = Inr future_time \<and>
         latest_timestamp ctx + param_update_delay s \<le> MAX_INT_U64 \<and>
         future_time \<ge> latest_timestamp ctx + param_update_delay s \<and>
         0 < future_A \<and> future_A < 400000000 \<and>
         get_amplification_factor ctx s = Inr initial_A \<and>
         s' = s\<lparr>initial_amplification_factor := initial_A,
                future_amplification_factor := future_A,
                initial_amplification_factor_time := latest_timestamp ctx,
                future_amplification_factor_time := future_time\<rparr>))
   \<and> (on_ramp_amplification_factor ctx s = Inl e \<longrightarrow>
        state_after s (on_ramp_amplification_factor ctx s) = s)"
  by (auto simp: on_ramp_amplification_factor_def seq_eq_Inr Add_def state_after_def
      MAX_AMPLIFICATION_FACTOR_def split: if_splits)

lemma ramp_example_fail:
  "on_ramp_amplification_factor
     (example_call [app_call ''ADMIN'' 77 [''ramp'', Itob 200000000, Itob 1004]] 0)
     (example_pool 1000000 1000000 1000000 100000000)
   = Inl AssertFailed"
  by (simp add: on_ramp_amplification_factor_def get_amplification_factor_def
      interpolate_amplification_factor_def example_defs group_defs arith_defs
      MAX_AMPLIFICATION_FACTOR_def cong: seq_weak_cong)

theorem ramp_amplification_factor_witness:
  "on_ramp_amplification_factor
     (example_call [app_call ''ADMIN'' 77 [''ramp'', Itob 200000000, Itob 2000]] 0)
     (example_pool 1000000 1000000 1000000 100000000)
   = Inr ((example_pool 1000000 1000000 1000000 100000000)
            \<lparr>initial_amplification_factor := 100000000,
             future_amplification_factor := 200000000,
             initial_amplification_factor_time := 1000,
             future_amplification_factor_time := 2000\<rparr>)
   \<and> state_after (example_pool 1000000 1000000 1000000 100000000)
        (on_ramp_amplification_factor
           (example_call [app_call ''ADMIN'' 77 [''ramp'', Itob 200000000, Itob 1004]] 0)
           (example_pool 1000000 1000000 1000000 100000000))
      = example_pool 1000000 1000000 1000000 100000000"
proof -
  let ?s = "example_pool 1000000 1000000 1000000 100000000"
  let ?ok = "example_call [app_call ''ADMIN'' 77 [''ramp'', Itob 200000000, Itob 2000]] 0"
  let ?bad = "example_call [app_call ''ADMIN'' 77 [''ramp'', Itob 200000000, Itob 1004]] 0"
  have "Txn ?ok = Inr (app_call ''ADMIN'' 77 [''ramp'', Itob 200000000, Itob 2000])"
    by (simp add: example_defs group_defs)
  moreover have "sender (app_call ''ADMIN'' 77 [''ramp'', Itob 200000000, Itob 2000]) = admin ?s"
    by (simp add: example_defs)
  moreover have "arg_uint (app_call ''ADMIN'' 77 [''ramp'', Itob 200000000, Itob 2000]) 1
      = Inr 200000000"
    "arg_uint (app_call ''ADMIN'' 77 [''ramp'', Itob 200000000, Itob 2000]) 2 = Inr 2000"
    by (simp_all add: example_defs group_defs)
  moreover have "get_amplification_factor ?ok ?s = Inr 100000000"
    by (simp add: get_amplification_factor_def interpolate_amplification_factor_def
        example_defs)
  moreover have "latest_timestamp ?ok = 1000" "param_update_delay ?s = 5"
    by (simp_all add: example_defs)
  ultimately have ok: "on_ramp_amplification_factor ?ok ?s
      = Inr (?s\<lparr>initial_amplification_factor := 100000000,
             future_amplification_factor := 200000000,
             initial_amplification_factor_time := 1000,
             future_amplification_factor_time := 2000\<rparr>)"
    using ramp_amplification_factor [of ?ok ?s "?s\<lparr>initial_amplification_factor := 100000000,
             future_amplification_factor := 200000000,
             initial_amplification_factor_time := 1000,
             future_amplification_factor_time := 2000\<rparr>"]
    by (simp add: MAX_INT_U64_def)
  have bad: "state_after ?s (on_ramp_amplification_factor ?bad ?s) = ?s"
    using ramp_amplification_factor [of ?bad ?s _ AssertFailed] ramp_example_fail
    by simp
  from ok bad show ?thesis by simp
qed

section \<open>What the helpers of pool.py check\<close>

lemma WideRatio_Inr:
  "WideRatio a b c = Inr q \<longleftrightarrow> c \<noteq> 0 \<and> a * b div c \<le> MAX_INT_U64 \<and> q = a * b div c"
  by (auto simp: WideRatio_def)

lemma Add_Inr: "Add a b = Inr c \<longleftrightarrow> a + b \<le> MAX_INT_U64 \<and> c = a + b"
  by (auto simp: Add_def)

lemma Minus_Inr: "Minus a b = Inr c \<longleftrightarrow> b \<le> a \<and> c = a - b"
  by (auto simp: Minus_def)

lemma Mul_Inr: "Mul a b = Inr c \<longleftrightarrow> a * b \<le> MAX_INT_U64 \<and> c = a * b"
  by (auto simp: Mul_def)

lemma Div_Inr: "Div a b = Inr c \<longleftrightarrow> b \<noteq> 0 \<and> c = a div b"
  by (auto simp: Div_def)

lemma verify_algos_Inr:
  "verify_txn_is_sending_algos_to_pool ctx idx = Inr t \<longleftrightarrow>
     (\<exists>i. idx = Inr i \<and> Gtxn ctx i = Inr t \<and> type_enum t = Payment \<and>
          receiver t = current_application_address ctx \<and> amount t > 0)"
  by (auto simp: verify_txn_is_sending_algos_to_pool_def seq_eq_Inr)

lemma verify_asa_Inr:
  "verify_txn_is_sending_asa_to_pool ctx idx asset = Inr t \<longleftrightarrow>
     (\<exists>i. idx = Inr i \<and> Gtxn ctx i = Inr t \<and> type_enum t = AssetTransfer \<and>
          xfer_asset t = asset \<and> asset_receiver t = current_application_address ctx \<and>
          asset_amount t > 0)"
  by (auto simp: verify_txn_is_sending_asa_to_pool_def seq_eq_Inr)

lemma verify_named_Inr:
  "verify_txn_is_named_application_call ctx idx name = Inr u \<longleftrightarrow>
     (\<exists>i t. idx = Inr i \<and> Gtxn ctx i = Inr t \<and> on_completion t = NoOp \<and>
            type_enum t = ApplicationCall \<and>
            application_id t = current_application_id ctx \<and> arg t 0 = Inr name)"
  by (auto simp: verify_txn_is_named_application_call_def seq_eq_Inr)

lemma validate_noop_Inr:
  "validate_noop_application_call ctx = Inr t \<longleftrightarrow>
     Txn ctx = Inr t \<and> on_completion t = NoOp \<and> type_enum t = ApplicationCall"
  by (auto simp: validate_noop_application_call_def seq_eq_Inr)

lemma update_reserve_factor_Inr:
  "update_reserve_factor ctx s = Inr s' \<longleftrightarrow>
     (\<exists>v. manager_reserve_factor ctx = Some v \<and> v \<le> 1000000 \<and> s' = s\<lparr>reserve_factor := v\<rparr>)"
  by (auto simp: update_reserve_factor_def seq_eq_Inr FIXED_6_SCALE_FACTOR_def
      split: option.splits)

lemma update_flash_loan_fee_Inr:
  "update_flash_loan_fee ctx s = Inr s' \<longleftrightarrow>
     (\<exists>v. manager_flash_loan_fee ctx = Some v \<and> v \<le> 1000000 \<and> s' = s\<lparr>flash_loan_fee := v\<rparr>)"
  by (auto simp: update_flash_loan_fee_def seq_eq_Inr FIXED_6_SCALE_FACTOR_def
      split: option.splits)

lemma update_max_flash_loan_ratio_Inr:
  "update_max_flash_loan_ratio ctx s = Inr s' \<longleftrightarrow>
     (\<exists>v. manager_max_flash_loan_ratio ctx = Some v \<and> v \<le> 1000000 \<and>
          s' = s\<lparr>max_flash_loan_ratio := v\<rparr>)"
  by (auto simp: update_max_flash_loan_ratio_def seq_eq_Inr FIXED_6_SCALE_FACTOR_def
      split: option.splits)

lemma validate_asset_ratio_Inr:
  "validate_asset_ratio s = Inr u \<longleftrightarrow>
     balance_1 s \<ge> 1000 \<and> balance_2 s \<ge> 1000 \<and>
     balance_1 s div balance_2 s < 1000000000 \<and> balance_2 s div balance_1 s < 1000000000"
  by (auto simp: validate_asset_ratio_def seq_eq_Inr Div_Inr MIN_POOL_BALANCE_def
      MAX_ASSET_RATIO_def)

lemma update_reserves_Inr:
  assumes "update_reserves is1 amt s = Inr (s', r)"
  shows "r = amt * reserve_factor s div 1000000"
    and "is1 \<Longrightarrow> balance_1 s' = balance_1 s - r \<and> r \<le> balance_1 s \<and>
           asset1_reserve s' = asset1_reserve s + r \<and> balance_2 s' = balance_2 s \<and>
           asset2_reserve s' = asset2_reserve s"
    and "\<not> is1 \<Longrightarrow> balance_2 s' = balance_2 s - r \<and> r \<le> balance_2 s \<and>
           asset2_reserve s' = asset2_reserve s + r \<and> balance_1 s' = balance_1 s \<and>
           asset1_reserve s' = asset1_reserve s"
    and "lp_circulation s' = lp_circulation s"
  using assms
  by (auto simp: update_reserves_def seq_eq_Inr WideRatio_Inr Add_Inr Minus_Inr
      FIXED_6_SCALE_FACTOR_def split: if_splits)

section \<open>Flash loans\<close>


lemma flash_loan_fee_calc_Inr:
  "flash_loan_fee_calc s loan = Inr f \<longleftrightarrow>
     loan * flash_loan_fee s div 1000000 + 1 \<le> MAX_INT_U64 \<and>
     f = loan * flash_loan_fee s div 1000000 + 1"
  by (auto simp: flash_loan_fee_calc_def seq_eq_Inr WideRatio_Inr Add_Inr
      FIXED_6_SCALE_FACTOR_def)

lemma validate_flash_loan_txn_Inr:
  "validate_flash_loan_txn ctx s t loan = Inr la \<Longrightarrow>
     on_completion t = NoOp \<and> type_enum t = ApplicationCall \<and> group_index ctx = 0 \<and>
     arg_uint t 1 = Inr la \<and> (la = asset1_id s \<or> la = asset2_id s) \<and> loan > 0 \<and>
     loan \<le> (if la = asset1_id s then balance_1 s else balance_2 s)
              * max_flash_loan_ratio s div 1000000"
  by (auto simp: validate_flash_loan_txn_def seq_eq_Inr max_asset1_flash_loan_def
      max_asset2_flash_loan_def WideRatio_Inr FLASH_LOAN_IDX_def FIXED_6_SCALE_FACTOR_def
      split: if_splits)

lemma validate_flash_loan_repay_txn_Inr:
  "validate_flash_loan_repay_txn ctx la loan loan_fee = Inr u \<Longrightarrow>
     (\<exists>r. Gtxn ctx (length (gtxns ctx) - 1) = Inr r \<and>
      (if la = 1
       then type_enum r = Payment \<and> receiver r = current_application_address ctx \<and>
            amount r = loan + loan_fee
       else type_enum r = AssetTransfer \<and> xfer_asset r = la \<and>
            asset_receiver r = current_application_address ctx \<and>
            asset_amount r = loan + loan_fee))"
  by (auto simp: validate_flash_loan_repay_txn_def seq_eq_Inr verify_algos_Inr verify_asa_Inr
      FLASH_LOAN_REPAY_IDX_def Minus_Inr Add_Inr split: if_splits)

lemma flash_loan_update_balances_Inr:
  assumes "flash_loan_update_balances s la loan_fee = Inr (s', r)"
  shows "r = loan_fee * reserve_factor s div 1000000"
    and "la = asset1_id s \<Longrightarrow>
           balance_1 s' = balance_1 s + loan_fee - r \<and>
           asset1_reserve s' = asset1_reserve s + r \<and> balance_2 s' = balance_2 s \<and>
           asset2_reserve s' = asset2_reserve s"
    and "la \<noteq> asset1_id s \<Longrightarrow>
           balance_2 s' = balance_2 s + loan_fee - r \<and>
           asset2_reserve s' = asset2_reserve s + r \<and> balance_1 s' = balance_1 s \<and>
           asset1_reserve s' = asset1_reserve s"
proof -
  from assms obtain s1 where s1: "update_reserves (la = asset1_id s) loan_fee s1 = Inr (s', r)"
    and b: "if la = asset1_id s then s1 = s\<lparr>balance_1 := balance_1 s + loan_fee\<rparr>
            else s1 = s\<lparr>balance_2 := balance_2 s + loan_fee\<rparr>"
    by (auto simp: flash_loan_update_balances_def seq_eq_Inr Add_Inr split: if_splits)
  from b have rf: "reserve_factor s1 = reserve_factor s" by (simp split: if_splits)
  show "r = loan_fee * reserve_factor s div 1000000"
    using update_reserves_Inr(1) [OF s1] rf by simp
  show "la = asset1_id s \<Longrightarrow>
           balance_1 s' = balance_1 s + loan_fee - r \<and>
           asset1_reserve s' = asset1_reserve s + r \<and> balance_2 s' = balance_2 s \<and>
           asset2_reserve s' = asset2_reserve s"
    using update_reserves_Inr(2) [OF s1] b by simp
  show "la \<noteq> asset1_id s \<Longrightarrow>
           balance_2 s' = balance_2 s + loan_fee - r \<and>
           asset2_reserve s' = asset2_reserve s + r \<and> balance_1 s' = balance_1 s \<and>
           asset1_reserve s' = asset1_reserve s"
    using update_reserves_Inr(3) [OF s1] b by simp
qed

text \<open>What a successful flash loan has checked and done, step by step.\<close>

lemma on_flash_loan_Inr:
  assumes "on_flash_loan ctx s = Inr out"
  obtains t loan la rf ff mr s3 s4 loan_fee to_reserve sent where
    "manager_reserve_factor ctx = Some rf" "manager_flash_loan_fee ctx = Some ff"
    "manager_max_flash_loan_ratio ctx = Some mr"
    "s3 = s\<lparr>reserve_factor := rf, flash_loan_fee := ff, max_flash_loan_ratio := mr\<rparr>"
    "Txn ctx = Inr t" "arg_uint t 2 = Inr loan"
    "flash_loan_fee_calc s3 loan = Inr loan_fee"
    "validate_flash_loan_txn ctx s3 t loan = Inr la"
    "validate_flash_loan_repay_txn ctx la loan loan_fee = Inr ()"
    "send_funds ctx s3 la loan = Inr sent"
    "flash_loan_update_balances s3 la loan_fee = Inr (s4, to_reserve)"
    "validate_asset_ratio s4 = Inr ()"
    "out = (outcome_of s4 [sent])\<lparr>flash_loan_fee_store := loan_fee,
                                   fee_to_reserve_store := to_reserve\<rparr>"
  using assms
  by (auto simp: on_flash_loan_def seq_eq_Inr update_reserve_factor_Inr
      update_flash_loan_fee_Inr update_max_flash_loan_ratio_Inr)

lemmas pool_defs = send_asa_def send_algo_def send_asset1_def send_asset2_def send_lp_def
  verify_txn_is_named_application_call_def verify_txn_is_sending_algos_to_pool_def
  verify_txn_is_sending_asa_to_pool_def validate_noop_application_call_def
  update_reserve_factor_def update_flash_loan_fee_def update_max_flash_loan_ratio_def
  update_reserves_def validate_asset_ratio_def pool_is_empty_def outcome_of_def
  calculate_integer_wrapped_value_def MIN_POOL_BALANCE_def MAX_ASSET_RATIO_def

lemmas flash_loan_defs = on_flash_loan_def flash_loan_fee_calc_def max_asset1_flash_loan_def
  max_asset2_flash_loan_def validate_flash_loan_txn_def validate_flash_loan_repay_txn_def
  send_funds_def flash_loan_update_balances_def FLASH_LOAN_IDX_def FLASH_LOAN_REPAY_IDX_def
  flash_loan_str_def flash_loan_group_def late_flash_loan_group_def

lemma flash_loan_example:
  "\<exists>out. on_flash_loan (example_call flash_loan_group 0) (example_pool 1000000 1000000 1000000 0)
           = Inr out \<and>
         flash_loan_fee_store out = 2 \<and> fee_to_reserve_store out = 0 \<and>
         balance_1 (globals out) = 1000002 \<and> asset1_reserve (globals out) = 0 \<and>
         itxns out = [AssetTransferTxn 5 1000 ''USER'']"
  by (simp add: flash_loan_defs pool_defs example_defs group_defs arith_defs
      cong: seq_weak_cong)

text \<open>
  Claim C9. A flash loan call that succeeds sits at group index 0, and the repayment it
  has validated is the transaction at the final group index, \<open>group size - 1\<close>: a
  payment (for Algo) or a transfer of the loaned asset to the pool's escrow of the loan
  plus the fee. A flash loan call at any other group index fails.
\<close>

theorem flash_loan_position:
  "(on_flash_loan ctx s = Inr out \<longrightarrow>
      group_index ctx = 0 \<and>
      (\<exists>t loan la r.
          Txn ctx = Inr t \<and> arg_uint t 1 = Inr la \<and> arg_uint t 2 = Inr loan \<and>
          Gtxn ctx (length (gtxns ctx) - 1) = Inr r \<and>
          (if la = 1
           then type_enum r = Payment \<and> receiver r = current_application_address ctx \<and>
                amount r = loan + flash_loan_fee_store out
           else type_enum r = AssetTransfer \<and> xfer_asset r = la \<and>
                asset_receiver r = current_application_address ctx \<and>
                asset_amount r = loan + flash_loan_fee_store out)))
   \<and> (group_index ctx \<noteq> 0 \<longrightarrow> (\<exists>e. on_flash_loan ctx s = Inl e))"
proof -
  have ok: "group_index ctx = 0 \<and>
      (\<exists>t loan la r.
          Txn ctx = Inr t \<and> arg_uint t 1 = Inr la \<and> arg_uint t 2 = Inr loan \<and>
          Gtxn ctx (length (gtxns ctx) - 1) = Inr r \<and>
          (if la = 1
           then type_enum r = Payment \<and> receiver r = current_application_address ctx \<and>
                amount r = loan + flash_loan_fee_store out'
           else type_enum r = AssetTransfer \<and> xfer_asset r = la \<and>
                asset_receiver r = current_application_address ctx \<and>
                asset_amount r = loan + flash_loan_fee_store out'))"
    if "on_flash_loan ctx s = Inr out'" for out'
    using that
  proof (rule on_flash_loan_Inr)
    fix t loan la rf ff mr s3 s4 loan_fee to_reserve sent
    assume t: "Txn ctx = Inr t" "arg_uint t 2 = Inr loan"
      and v: "validate_flash_loan_txn ctx s3 t loan = Inr la"
      and r: "validate_flash_loan_repay_txn ctx la loan loan_fee = Inr ()"
      and o: "out' = (outcome_of s4 [sent])\<lparr>flash_loan_fee_store := loan_fee,
                                   fee_to_reserve_store := to_reserve\<rparr>"
    from o have f: "flash_loan_fee_store out' = loan_fee" by simp
    from validate_flash_loan_txn_Inr [OF v] validate_flash_loan_repay_txn_Inr [OF r] t f
    show ?thesis by auto
  qed
  have "\<exists>e. on_flash_loan ctx s = Inl e" if "group_index ctx \<noteq> 0"
  proof (cases "on_flash_loan ctx s")
    case (Inl e)
    then show ?thesis by blast
  next
    case (Inr out')
    with ok [of out'] that show ?thesis by simp
  qed
  with ok [of out] show ?thesis by blast
qed

theorem flash_loan_position_witness:
  "(\<exists>out. on_flash_loan (example_call flash_loan_group 0)
             (example_pool 1000000 1000000 1000000 0) = Inr out) \<and>
   group_index (example_call flash_loan_group 0) = 0 \<and>
   (\<exists>e. on_flash_loan (example_call late_flash_loan_group 1)
           (example_pool 1000000 1000000 1000000 0) = Inl e)"
proof -
  from flash_loan_example obtain out where
    out: "on_flash_loan (example_call flash_loan_group 0)
            (example_pool 1000000 1000000 1000000 0) = Inr out"
    by blast
  from flash_loan_position [of "example_call flash_loan_group 0" _ out] out
  have "group_index (example_call flash_loan_group 0) = 0" by blast
  moreover have "group_index (example_call late_flash_loan_group 1) \<noteq> 0"
    by (simp add: example_call_def)
  with flash_loan_position [of "example_call late_flash_loan_group 1"
      "example_pool 1000000 1000000 1000000 0"]
  have "\<exists>e. on_flash_loan (example_call late_flash_loan_group 1)
           (example_pool 1000000 1000000 1000000 0) = Inl e" by blast
  ultimately show ?thesis using out by blast
qed

text \<open>
  Claim C2 as stated has the fee be the ceiling of \<open>loan * flash_loan_fee / 10^6\<close>. A loan
  of 1000 at the default fee rate 1000 succeeds with a repayment of 1002: the fee is 2,
  the ceiling is 1.
\<close>

theorem flash_loan_fee_counterexample:
  "\<exists>out. on_flash_loan (example_call flash_loan_group 0) (example_pool 1000000 1000000 1000000 0)
           = Inr out \<and>
         arg_uint (flash_loan_group ! 0) 2 = Inr 1000 \<and>
         flash_loan_fee (globals out) = 1000 \<and>
         asset_amount (flash_loan_group ! 1) = 1000 + 2 \<and>
         flash_loan_fee_store out = 2 \<and>
         ceil_ratio 1000 1000 1000000 = 1"
  by (simp add: flash_loan_defs pool_defs example_defs group_defs arith_defs ceil_ratio_def
      cong: seq_weak_cong)

text \<open>
  Claim C2, as the code has it. A flash loan of \<open>loan\<close> in asset \<open>la\<close> that succeeds has
  refreshed the reserve factor \<open>rf\<close>, the fee rate \<open>ff\<close> and the maximum ratio \<open>mr\<close> from
  the manager; \<open>la\<close> is one of the pool's two assets, \<open>loan > 0\<close>,
  \<open>loan \<le> balance * mr div 10^6\<close> for the loaned asset's balance, and the group's final
  transaction pays the pool exactly \<open>loan + fee\<close> in the loaned asset, where
  \<open>fee = loan * ff div 10^6 + 1\<close>: the quotient rounded down, plus one, which is one more
  than the ceiling whenever \<open>10^6\<close> divides \<open>loan * ff\<close>. The loaned asset's balance is
  credited with the fee and \<open>fee * rf div 10^6\<close> of it is moved to that asset's reserve;
  the other asset's balance and reserve stay.
\<close>

theorem flash_loan_checks:
  assumes "on_flash_loan ctx s = Inr out"
  shows "\<exists>t loan la rf ff mr r loan_fee to_reserve.
     manager_reserve_factor ctx = Some rf \<and> manager_flash_loan_fee ctx = Some ff \<and>
     manager_max_flash_loan_ratio ctx = Some mr \<and>
     Txn ctx = Inr t \<and> arg_uint t 1 = Inr la \<and> arg_uint t 2 = Inr loan \<and>
     (la = asset1_id s \<or> la = asset2_id s) \<and>
     loan > 0 \<and>
     loan \<le> (if la = asset1_id s then balance_1 s else balance_2 s) * mr div 1000000 \<and>
     loan_fee = loan * ff div 1000000 + 1 \<and>
     flash_loan_fee_store out = loan_fee \<and>
     Gtxn ctx (length (gtxns ctx) - 1) = Inr r \<and>
     (if la = 1
      then type_enum r = Payment \<and> receiver r = current_application_address ctx \<and>
           amount r = loan + loan_fee
      else type_enum r = AssetTransfer \<and> xfer_asset r = la \<and>
           asset_receiver r = current_application_address ctx \<and>
           asset_amount r = loan + loan_fee) \<and>
     to_reserve = loan_fee * rf div 1000000 \<and>
     fee_to_reserve_store out = to_reserve \<and>
     (if la = asset1_id s
      then balance_1 (globals out) = balance_1 s + loan_fee - to_reserve \<and>
           asset1_reserve (globals out) = asset1_reserve s + to_reserve \<and>
           balance_2 (globals out) = balance_2 s \<and>
           asset2_reserve (globals out) = asset2_reserve s
      else balance_2 (globals out) = balance_2 s + loan_fee - to_reserve \<and>
           asset2_reserve (globals out) = asset2_reserve s + to_reserve \<and>
           balance_1 (globals out) = balance_1 s \<and>
           asset1_reserve (globals out) = asset1_reserve s)"
  using assms
proof (rule on_flash_loan_Inr)
  fix t loan la rf ff mr s3 s4 loan_fee to_reserve sent
  assume m: "manager_reserve_factor ctx = Some rf" "manager_flash_loan_fee ctx = Some ff"
      "manager_max_flash_loan_ratio ctx = Some mr"
    and s3: "s3 = s\<lparr>reserve_factor := rf, flash_loan_fee := ff, max_flash_loan_ratio := mr\<rparr>"
    and t: "Txn ctx = Inr t" "arg_uint t 2 = Inr loan"
    and f: "flash_loan_fee_calc s3 loan = Inr loan_fee"
    and v: "validate_flash_loan_txn ctx s3 t loan = Inr la"
    and r: "validate_flash_loan_repay_txn ctx la loan loan_fee = Inr ()"
    and u: "flash_loan_update_balances s3 la loan_fee = Inr (s4, to_reserve)"
    and o: "out = (outcome_of s4 [sent])\<lparr>flash_loan_fee_store := loan_fee,
                                   fee_to_reserve_store := to_reserve\<rparr>"
  from o have stores: "flash_loan_fee_store out = loan_fee" "fee_to_reserve_store out = to_reserve"
      "globals out = s4"
    by (simp_all add: outcome_of_def)
  from f s3 have fee: "loan_fee = loan * ff div 1000000 + 1"
    by (simp add: flash_loan_fee_calc_Inr)
  have chk: "arg_uint t 1 = Inr la" "la = asset1_id s \<or> la = asset2_id s" "loan > 0"
    "loan \<le> (if la = asset1_id s then balance_1 s else balance_2 s) * mr div 1000000"
    using validate_flash_loan_txn_Inr [OF v] unfolding s3 by auto
  from validate_flash_loan_repay_txn_Inr [OF r] obtain rp where
    rp: "Gtxn ctx (length (gtxns ctx) - 1) = Inr rp"
      "if la = 1
       then type_enum rp = Payment \<and> receiver rp = current_application_address ctx \<and>
            amount rp = loan + loan_fee
       else type_enum rp = AssetTransfer \<and> xfer_asset rp = la \<and>
            asset_receiver rp = current_application_address ctx \<and>
            asset_amount rp = loan + loan_fee"
    by blast
  have res: "to_reserve = loan_fee * rf div 1000000"
    using flash_loan_update_balances_Inr(1) [OF u] s3 by simp
  have bal: "if la = asset1_id s
      then balance_1 s4 = balance_1 s + loan_fee - to_reserve \<and>
           asset1_reserve s4 = asset1_reserve s + to_reserve \<and>
           balance_2 s4 = balance_2 s \<and> asset2_reserve s4 = asset2_reserve s
      else balance_2 s4 = balance_2 s + loan_fee - to_reserve \<and>
           asset2_reserve s4 = asset2_reserve s + to_reserve \<and>
           balance_1 s4 = balance_1 s \<and> asset1_reserve s4 = asset1_reserve s"
    using flash_loan_update_balances_Inr(2,3) [OF u] s3 by simp
  show ?thesis
    using m t chk fee stores rp res bal
    by (rule_tac exI [of _ t], rule_tac exI [of _ loan], rule_tac exI [of _ la],
        rule_tac exI [of _ rf], rule_tac exI [of _ ff], rule_tac exI [of _ mr],
        rule_tac exI [of _ rp], rule_tac exI [of _ loan_fee], rule_tac exI [of _ to_reserve])
      simp
qed

theorem flash_loan_checks_witness:
  "\<exists>out. on_flash_loan (example_call flash_loan_group 0) (example_pool 1000000 1000000 1000000 0)
           = Inr out \<and>
     (\<exists>t loan la rf ff mr r loan_fee.
        Txn (example_call flash_loan_group 0) = Inr t \<and> arg_uint t 2 = Inr loan \<and>
        manager_flash_loan_fee (example_call flash_loan_group 0) = Some ff \<and>
        loan_fee = loan * ff div 1000000 + 1 \<and> flash_loan_fee_store out = loan_fee)"
proof -
  from flash_loan_example obtain out where
    out: "on_flash_loan (example_call flash_loan_group 0)
            (example_pool 1000000 1000000 1000000 0) = Inr out"
    by blast
  from flash_loan_checks [OF out] out show ?thesis by blast
qed

section \<open>Pooling, burning and swapping, step by step\<close>

lemma on_pool_with_Inr:
  assumes "on_pool_with issuance ctx s = Inr out"
  obtains a1 a2 is_empty adj1 adj2 res1 res2 lp ops sent s' where
    "validate_asset1_payment_txn ctx s = Inr a1"
    "validate_asset2_payment_txn ctx s = Inr a2"
    "pool_is_empty s = Inr is_empty"
    "adjust_pool_input_amounts ctx s is_empty a1 a2 = Inr (adj1, adj2, res1, res2)"
    "issuance ctx s is_empty adj1 adj2 = Inr (lp, ops)"
    "lp > 0"
    "send_lp ctx s lp = Inr sent"
    "s' = s\<lparr>latest_time := (if is_empty then latest_timestamp ctx else latest_time s),
              balance_1 := balance_1 s + adj1, balance_2 := balance_2 s + adj2,
              lp_circulation := lp_circulation s + lp\<rparr>"
    "validate_asset_ratio s' = Inr ()"
    "out = (outcome_of s' (ops @ [sent]))
             \<lparr>lp_issued_store := lp, pool_asset1_residual_store := res1,
              pool_asset2_residual_store := res2\<rparr>"
  using assms
  by (auto simp: on_pool_with_def seq_eq_Inr Add_Inr Let_def split: prod.splits)

lemma on_swap_Inr:
  assumes "on_swap ctx s = Inr out"
  obtains s1 price12 price21 s2 swap_input_amount input_is_asset1 t a0 out0 s3 to_reserve
  where
    "save_latest_cumsum_time_weighted_price ctx s = Inr (s1, price12, price21)"
    "update_reserve_factor ctx s1 = Inr s2"
    "validate_asset_payment_txn ctx s2 = Inr (swap_input_amount, input_is_asset1)"
    "validate_noop_application_call ctx = Inr t"
    "arg t 0 = Inr a0"
    "(if a0 = swap_for_exact_str
      then handle_swap_for_exact ctx s2 price12 price21 swap_input_amount input_is_asset1
      else handle_swap_exact_for ctx s2 price12 price21 swap_input_amount input_is_asset1)
     = Inr out0"
    "update_reserves input_is_asset1 (swap_fee_store out0) (globals out0) = Inr (s3, to_reserve)"
    "validate_asset_ratio s3 = Inr ()"
    "out = out0\<lparr>globals := s3, fee_to_reserve_store := to_reserve\<rparr>"
  using assms
  by (auto simp: on_swap_def seq_eq_Inr split: prod.splits)

lemma on_burn_asset1_out_Inr:
  assumes "on_burn_asset1_out ctx s = Inr out"
  obtains lp_in burn_amount sent where
    "verify_txn_is_sending_asa_to_pool ctx (relative_index ctx (- 1)) (lp_id s) = Inr lp_in"
    "(if asset_amount lp_in = lp_circulation s then Inr (balance_1 s)
      else convert_lp_to_asset1 s (asset_amount lp_in)) = Inr burn_amount"
    "burn_amount > 0" "burn_amount \<le> balance_1 s"
    "send_asset1 ctx s burn_amount = Inr sent"
    "out = (outcome_of (s\<lparr>balance_1 := balance_1 s - burn_amount\<rparr>) [sent])
             \<lparr>burn_asset1_amount_store := burn_amount\<rparr>"
  using assms
  by (auto simp: on_burn_asset1_out_def seq_eq_Inr Minus_Inr)

lemma on_burn_asset2_out_Inr:
  assumes "on_burn_asset2_out ctx s = Inr out"
  obtains lp_in burn_amount sent where
    "verify_txn_is_sending_asa_to_pool ctx (relative_index ctx (- 2)) (lp_id s) = Inr lp_in"
    "(if asset_amount lp_in = lp_circulation s then Inr (balance_2 s)
      else convert_lp_to_asset2 s (asset_amount lp_in)) = Inr burn_amount"
    "burn_amount > 0" "burn_amount \<le> balance_2 s"
    "asset_amount lp_in \<le> lp_circulation s"
    "send_asset2 ctx s burn_amount = Inr sent"
    "out = (outcome_of (s\<lparr>balance_2 := balance_2 s - burn_amount,
                          lp_circulation := lp_circulation s - asset_amount lp_in\<rparr>) [sent])
             \<lparr>burn_asset2_amount_store := burn_amount\<rparr>"
  using assms
  by (auto simp: on_burn_asset2_out_def seq_eq_Inr Minus_Inr)


section \<open>Closed runs of the handlers\<close>

lemmas string_defs = pool_str_def redeem_pool_asset1_residual_str_def
  redeem_pool_asset2_residual_str_def burn_asset1_out_str_def burn_asset2_out_str_def
  swap_for_exact_str_def swap_exact_for_str_def redeem_swap_residual_str_def

lemmas on_pool_defs = on_pool_def on_pool_with_def validate_asset1_payment_txn_def
  validate_asset2_payment_txn_def adjust_pool_input_amounts_def calculate_lp_issuance_def
  convert_asset1_to_lp_def convert_asset2_to_lp_def pool_group_def

lemmas on_burn_defs = on_burn_asset1_out_def on_burn_asset2_out_def convert_lp_to_asset1_def
  convert_lp_to_asset2_def burn_group_def

lemmas on_swap_defs = on_swap_def save_latest_cumsum_time_weighted_price_def
  save_latest_cumsum_volume_def validate_asset_payment_txn_def swap_fee_exact_for_def
  handle_swap_exact_for_def swap_fee_for_exact_def handle_swap_for_exact_def
  swap_exact_asset1_for_def swap_exact_asset2_for_def swap_for_exact_asset1_amount_def
  swap_for_exact_asset2_amount_def swap_group_def

lemma sqrt_bits_numeral:
  "sqrt_bits (numeral k) n r =
     (if (r + 2 ^ pred_numeral k) * (r + 2 ^ pred_numeral k) \<le> n
      then sqrt_bits (pred_numeral k) n (r + 2 ^ pred_numeral k)
      else sqrt_bits (pred_numeral k) n r)"
  by (simp add: numeral_eq_Suc)

lemma Sqrt_examples:
  "Sqrt 1000000000000 = 1000000"
  "Sqrt 4294967296 = 65536"
  "Sqrt 4294967295 = 65535"
  "Sqrt 18446744069414584320 = 4294967295"
  by (simp_all add: Sqrt_def sqrt_bits_numeral)

lemma pool_example:
  "\<exists>out. on_pool (example_call (pool_group 1000000 1000000) 2) (example_pool 0 0 0 0) = Inr out \<and>
         lp_issued_store out = 1000000 \<and>
         globals out = (example_pool 1000000 1000000 1000000 0)\<lparr>latest_time := 1000\<rparr> \<and>
         itxns out = [AssetTransferTxn 33 1000000 ''USER'']"
  by (simp add: on_pool_defs pool_defs example_defs group_defs arith_defs string_defs
      Sqrt_examples cong: seq_weak_cong)

lemma swap_example:
  "\<exists>out. on_swap (example_call (swap_group 1000 900) 1)
           (example_pool 1000000 1000000 1000000 0) = Inr out \<and>
         swap_fee_store out = 3 \<and> swap_input_amount_less_fees_store out = 997 \<and>
         swap_output_amount_store out = 996 \<and>
         balance_1 (globals out) = 1001000 \<and> balance_2 (globals out) = 999004 \<and>
         itxns out = [AssetTransferTxn 9 996 ''USER'']"
  by (simp add: on_swap_defs pool_defs example_defs group_defs arith_defs string_defs
      cong: seq_weak_cong)

lemma burn_example:
  "\<exists>out1 out2.
      on_burn_asset1_out (example_call (burn_group 1000000) 1)
        (example_pool 1000000 1000000 1000000 0) = Inr out1 \<and>
      on_burn_asset2_out (example_call (burn_group 1000000) 2) (globals out1) = Inr out2 \<and>
      balance_1 (globals out1) = 0 \<and> balance_1 (globals out2) = 0 \<and>
      balance_2 (globals out2) = 0 \<and> lp_circulation (globals out2) = 0"
  by (simp add: on_burn_defs pool_defs example_defs group_defs arith_defs string_defs
      cong: seq_weak_cong)

section \<open>The balance floor and the ratio bound\<close>

text \<open>
  Claim C3 as stated also covers \<^verbatim>\<open>burn_asset1_out\<close> and \<^verbatim>\<open>burn_asset2_out\<close>. Burning the
  whole circulation of a pool holding 1000000 of each asset succeeds in both calls and
  leaves balance 0 of asset 1 after the first and 0 of both after the second.
\<close>

theorem burn_leaves_zero_counterexample:
  "\<exists>out1 out2.
      on_burn_asset1_out (example_call (burn_group 1000000) 1)
        (example_pool 1000000 1000000 1000000 0) = Inr out1 \<and>
      on_burn_asset2_out (example_call (burn_group 1000000) 2) (globals out1) = Inr out2 \<and>
      \<not> balance_1 (globals out1) \<ge> 1000 \<and>
      \<not> balance_1 (globals out2) \<ge> 1000 \<and> \<not> balance_2 (globals out2) \<ge> 1000"
  using burn_example by force

text \<open>
  Claim C3, as the code has it. After a successful \<^verbatim>\<open>on_pool\<close>, \<^verbatim>\<open>on_swap\<close> or
  \<^verbatim>\<open>on_flash_loan\<close> both balances are at least 1000 and each balance divided by the other
  (integer division) is below \<open>10^9\<close>. (The two burn handlers do not call
  \<^verbatim>\<open>validate_asset_ratio\<close>.)
\<close>

theorem ratio_enforced:
  assumes "on_pool ctx s = Inr out \<or> on_swap ctx s = Inr out \<or> on_flash_loan ctx s = Inr out"
  shows "balance_1 (globals out) \<ge> 1000 \<and> balance_2 (globals out) \<ge> 1000 \<and>
         balance_1 (globals out) div balance_2 (globals out) < 1000000000 \<and>
         balance_2 (globals out) div balance_1 (globals out) < 1000000000"
proof -
  have "validate_asset_ratio (globals out) = Inr ()"
    using assms
  proof (elim disjE)
    assume "on_pool ctx s = Inr out"
    then have "on_pool_with calculate_lp_issuance ctx s = Inr out"
      by (simp add: on_pool_def)
    then show ?thesis
      by (rule on_pool_with_Inr) (simp add: outcome_of_def)
  next
    assume "on_swap ctx s = Inr out"
    then show ?thesis
      by (rule on_swap_Inr) simp
  next
    assume "on_flash_loan ctx s = Inr out"
    then show ?thesis
      by (rule on_flash_loan_Inr) (simp add: outcome_of_def)
  qed
  then show ?thesis
    by (simp add: validate_asset_ratio_Inr)
qed

theorem ratio_enforced_witness:
  "(\<exists>out. on_pool (example_call (pool_group 1000000 1000000) 2) (example_pool 0 0 0 0) = Inr out \<and>
          balance_1 (globals out) \<ge> 1000 \<and> balance_2 (globals out) \<ge> 1000 \<and>
          balance_1 (globals out) div balance_2 (globals out) < 1000000000 \<and>
          balance_2 (globals out) div balance_1 (globals out) < 1000000000) \<and>
   (\<exists>out. on_swap (example_call (swap_group 1000 900) 1)
            (example_pool 1000000 1000000 1000000 0) = Inr out \<and>
          balance_1 (globals out) \<ge> 1000 \<and> balance_2 (globals out) \<ge> 1000 \<and>
          balance_1 (globals out) div balance_2 (globals out) < 1000000000 \<and>
          balance_2 (globals out) div balance_1 (globals out) < 1000000000) \<and>
   (\<exists>out. on_flash_loan (example_call flash_loan_group 0)
            (example_pool 1000000 1000000 1000000 0) = Inr out \<and>
          balance_1 (globals out) \<ge> 1000 \<and> balance_2 (globals out) \<ge> 1000 \<and>
          balance_1 (globals out) div balance_2 (globals out) < 1000000000 \<and>
          balance_2 (globals out) div balance_1 (globals out) < 1000000000)"
proof -
  from pool_example obtain o1 where
    o1: "on_pool (example_call (pool_group 1000000 1000000) 2) (example_pool 0 0 0 0) = Inr o1"
    by blast
  from swap_example obtain o2 where
    o2: "on_swap (example_call (swap_group 1000 900) 1)
           (example_pool 1000000 1000000 1000000 0) = Inr o2"
    by blast
  from flash_loan_example obtain o3 where
    o3: "on_flash_loan (example_call flash_loan_group 0)
           (example_pool 1000000 1000000 1000000 0) = Inr o3"
    by blast
  from o1 have "on_pool (example_call (pool_group 1000000 1000000) 2) (example_pool 0 0 0 0) = Inr o1
      \<or> on_swap (example_call (pool_group 1000000 1000000) 2) (example_pool 0 0 0 0) = Inr o1
      \<or> on_flash_loan (example_call (pool_group 1000000 1000000) 2) (example_pool 0 0 0 0) = Inr o1"
    by simp
  note r1 = ratio_enforced [OF this]
  from o2 have "on_pool (example_call (swap_group 1000 900) 1)
           (example_pool 1000000 1000000 1000000 0) = Inr o2
      \<or> on_swap (example_call (swap_group 1000 900) 1)
           (example_pool 1000000 1000000 1000000 0) = Inr o2
      \<or> on_flash_loan (example_call (swap_group 1000 900) 1)
           (example_pool 1000000 1000000 1000000 0) = Inr o2"
    by simp
  note r2 = ratio_enforced [OF this]
  from o3 have "on_pool (example_call flash_loan_group 0)
           (example_pool 1000000 1000000 1000000 0) = Inr o3
      \<or> on_swap (example_call flash_loan_group 0)
           (example_pool 1000000 1000000 1000000 0) = Inr o3
      \<or> on_flash_loan (example_call flash_loan_group 0)
           (example_pool 1000000 1000000 1000000 0) = Inr o3"
    by simp
  note r3 = ratio_enforced [OF this]
  from o1 r1 o2 r2 o3 r3 show ?thesis by blast
qed

section \<open>Swapping an exact input\<close>

lemma save_price_keeps:
  assumes "save_latest_cumsum_time_weighted_price ctx s = Inr (s1, price12, price21)"
  shows "balance_1 s1 = balance_1 s" "balance_2 s1 = balance_2 s"
    "asset1_id s1 = asset1_id s" "asset2_id s1 = asset2_id s"
    "swap_fee_pct_scaled_var s1 = swap_fee_pct_scaled_var s"
  using assms
  by (auto simp: save_latest_cumsum_time_weighted_price_def seq_eq_Inr)

lemma save_volume_keeps:
  assumes "save_latest_cumsum_volume s price12 price21 v1 v2 = Inr s'"
  shows "balance_1 s' = balance_1 s" "balance_2 s' = balance_2 s"
  using assms
  by (auto simp: save_latest_cumsum_volume_def seq_eq_Inr)

lemma validate_asset_payment_txn_cong:
  assumes "asset1_id s' = asset1_id s" "asset2_id s' = asset2_id s"
  shows "validate_asset_payment_txn ctx s' = validate_asset_payment_txn ctx s"
  unfolding validate_asset_payment_txn_def assms by (rule refl)

lemma send_cong:
  "asset1_id s' = asset1_id s \<Longrightarrow> send_asset1 ctx s' amt = send_asset1 ctx s amt"
  "asset2_id s' = asset2_id s \<Longrightarrow> send_asset2 ctx s' amt = send_asset2 ctx s amt"
  by (simp_all add: send_asset1_def send_asset2_def)

lemma swap_fee_exact_for_Inr:
  "swap_fee_exact_for s input = Inr f \<longleftrightarrow>
     input * swap_fee_pct_scaled_var s div 1000000 + 1 \<le> MAX_INT_U64 \<and>
     f = input * swap_fee_pct_scaled_var s div 1000000 + 1"
  by (auto simp: swap_fee_exact_for_def seq_eq_Inr WideRatio_Inr Add_Inr
      FIXED_6_SCALE_FACTOR_def)

lemma swap_exact_asset1_for_Inr:
  "swap_exact_asset1_for s a = Inr q \<Longrightarrow> q = balance_2 s * a div (balance_1 s + a)"
  by (auto simp: swap_exact_asset1_for_def seq_eq_Inr WideRatio_Inr Add_Inr)

lemma swap_exact_asset2_for_Inr:
  "swap_exact_asset2_for s a = Inr q \<Longrightarrow> q = balance_1 s * a div (balance_2 s + a)"
  by (auto simp: swap_exact_asset2_for_def seq_eq_Inr WideRatio_Inr Add_Inr)

lemma handle_swap_exact_for_Inr:
  assumes "handle_swap_exact_for ctx s price12 price21 input is1 = Inr out"
  obtains swap_fee less_fees out_amount sent s' where
    "swap_fee_exact_for s input = Inr swap_fee"
    "swap_fee < input" "less_fees = input - swap_fee"
    "(if is1 then swap_exact_asset1_for s less_fees else swap_exact_asset2_for s less_fees)
       = Inr out_amount"
    "(if is1 then send_asset2 ctx s out_amount else send_asset1 ctx s out_amount) = Inr sent"
    "out_amount > 0"
    "out = (outcome_of s' [sent])
              \<lparr>swap_input_is_asset1_store := is1, swap_fee_store := swap_fee,
               swap_input_amount_less_fees_store := less_fees,
               swap_output_amount_store := out_amount\<rparr>"
proof (cases is1)
  case True
  with assms that show ?thesis
    unfolding handle_swap_exact_for_def
    by (auto simp: seq_eq_Inr Minus_Inr)
next
  case False
  with assms that show ?thesis
    unfolding handle_swap_exact_for_def
    by (auto simp: seq_eq_Inr Minus_Inr)
qed

text \<open>
  Claim C4. A successful \<^verbatim>\<open>swap_exact_for\<close> call on the constant-product pool charges the
  fee \<open>input * swap_fee_pct_scaled div 10^6 + 1\<close>, takes the input less that fee, and sends
  \<open>balance_other * input_less_fee div (balance_in + input_less_fee)\<close> of the other asset
  to the caller, the balances being those before the call. With balances of 1000000
  each, fee rate 2500 and 1000 of asset 1 in, the fee is 3, the input less fee is 997
  and the output is 996 of asset 2.
\<close>

theorem swap_exact_for_output:
  assumes "on_swap ctx s = Inr out" and "Txn ctx = Inr t"
    and "arg t 0 = Inr swap_exact_for_str"
  shows "\<exists>input is1 sent.
     validate_asset_payment_txn ctx s = Inr (input, is1) \<and>
     swap_fee_store out = input * swap_fee_pct_scaled_var s div 1000000 + 1 \<and>
     swap_fee_store out < input \<and>
     swap_input_amount_less_fees_store out = input - swap_fee_store out \<and>
     swap_output_amount_store out =
       (if is1
        then balance_2 s * swap_input_amount_less_fees_store out
               div (balance_1 s + swap_input_amount_less_fees_store out)
        else balance_1 s * swap_input_amount_less_fees_store out
               div (balance_2 s + swap_input_amount_less_fees_store out)) \<and>
     swap_output_amount_store out > 0 \<and>
     itxns out = [sent] \<and>
     (if is1 then send_asset2 ctx s (swap_output_amount_store out)
      else send_asset1 ctx s (swap_output_amount_store out)) = Inr sent"
  using assms(1)
proof (rule on_swap_Inr)
  fix s1 price12 price21 s2 input is1 t' a0 out0 s3 to_reserve
  assume sp: "save_latest_cumsum_time_weighted_price ctx s = Inr (s1, price12, price21)"
    and rf: "update_reserve_factor ctx s1 = Inr s2"
    and pay: "validate_asset_payment_txn ctx s2 = Inr (input, is1)"
    and noop: "validate_noop_application_call ctx = Inr t'"
    and a0: "arg t' 0 = Inr a0"
    and h: "(if a0 = swap_for_exact_str
             then handle_swap_for_exact ctx s2 price12 price21 input is1
             else handle_swap_exact_for ctx s2 price12 price21 input is1) = Inr out0"
    and out: "out = out0\<lparr>globals := s3, fee_to_reserve_store := to_reserve\<rparr>"
  from noop assms(2) have "t' = t" by (simp add: validate_noop_Inr)
  with a0 assms(3) have "a0 = swap_exact_for_str" by simp
  then have "a0 \<noteq> swap_for_exact_str"
    by (simp add: swap_exact_for_str_def swap_for_exact_str_def)
  with h have h': "handle_swap_exact_for ctx s2 price12 price21 input is1 = Inr out0"
    by simp
  from rf obtain v where s2: "s2 = s1\<lparr>reserve_factor := v\<rparr>"
    by (auto simp: update_reserve_factor_Inr)
  have keep: "balance_1 s2 = balance_1 s" "balance_2 s2 = balance_2 s"
    "asset1_id s2 = asset1_id s" "asset2_id s2 = asset2_id s"
    "swap_fee_pct_scaled_var s2 = swap_fee_pct_scaled_var s"
    using save_price_keeps [OF sp] by (simp_all add: s2)
  have pay': "validate_asset_payment_txn ctx s = Inr (input, is1)"
    using pay validate_asset_payment_txn_cong [OF keep(3,4), of ctx] by simp
  from h' show ?thesis
  proof (rule handle_swap_exact_for_Inr)
    fix swap_fee less_fees out_amount sent s'
    assume fee: "swap_fee_exact_for s2 input = Inr swap_fee"
      and lt: "swap_fee < input" and less: "less_fees = input - swap_fee"
      and q: "(if is1 then swap_exact_asset1_for s2 less_fees
               else swap_exact_asset2_for s2 less_fees) = Inr out_amount"
      and snd: "(if is1 then send_asset2 ctx s2 out_amount
                 else send_asset1 ctx s2 out_amount) = Inr sent"
      and pos: "out_amount > 0"
      and o0: "out0 = (outcome_of s' [sent])
              \<lparr>swap_input_is_asset1_store := is1, swap_fee_store := swap_fee,
               swap_input_amount_less_fees_store := less_fees,
               swap_output_amount_store := out_amount\<rparr>"
    have stores: "swap_fee_store out = swap_fee"
      "swap_input_amount_less_fees_store out = less_fees"
      "swap_output_amount_store out = out_amount" "itxns out = [sent]"
      by (simp_all add: out o0 outcome_of_def)
    have feev: "swap_fee = input * swap_fee_pct_scaled_var s div 1000000 + 1"
      using fee keep(5) by (simp add: swap_fee_exact_for_Inr)
    have outv: "out_amount =
       (if is1 then balance_2 s * less_fees div (balance_1 s + less_fees)
        else balance_1 s * less_fees div (balance_2 s + less_fees))"
    proof (cases is1)
      case True
      with q have "swap_exact_asset1_for s2 less_fees = Inr out_amount" by simp
      from swap_exact_asset1_for_Inr [OF this] True keep show ?thesis by simp
    next
      case False
      with q have "swap_exact_asset2_for s2 less_fees = Inr out_amount" by simp
      from swap_exact_asset2_for_Inr [OF this] False keep show ?thesis by simp
    qed
    have sndv: "(if is1 then send_asset2 ctx s out_amount
                 else send_asset1 ctx s out_amount) = Inr sent"
      using snd send_cong(1) [OF keep(3), of ctx out_amount]
        send_cong(2) [OF keep(4), of ctx out_amount]
      by (simp split: if_splits)
    show ?thesis
      unfolding stores
      using pay' feev lt less outv pos sndv
      by (rule_tac exI [of _ input], rule_tac exI [of _ is1], rule_tac exI [of _ sent]) simp
  qed
qed

theorem swap_exact_for_output_witness:
  "\<exists>out. on_swap (example_call (swap_group 1000 900) 1)
           (example_pool 1000000 1000000 1000000 0) = Inr out \<and>
     swap_fee_store out = 1000 * 2500 div 1000000 + 1 \<and>
     swap_fee_store out = 3 \<and>
     swap_input_amount_less_fees_store out = 997 \<and>
     swap_output_amount_store out = 1000000 * 997 div (1000000 + 997) \<and>
     swap_output_amount_store out = 996 \<and>
     itxns out = [AssetTransferTxn 9 996 ''USER'']"
proof -
  let ?ctx = "example_call (swap_group 1000 900) 1"
  let ?s = "example_pool 1000000 1000000 1000000 0"
  from swap_example obtain out where out: "on_swap ?ctx ?s = Inr out"
    and it: "itxns out = [AssetTransferTxn 9 996 ''USER'']"
    by blast
  have t: "Txn ?ctx = Inr (app_call ''USER'' 77 [swap_exact_for_str, Itob 900])"
    by (simp add: example_defs group_defs swap_group_def)
  have a: "arg (app_call ''USER'' 77 [swap_exact_for_str, Itob 900]) 0 = Inr swap_exact_for_str"
    by (simp add: example_defs group_defs)
  have p: "validate_asset_payment_txn ?ctx ?s = Inr (1000, True)"
    by (simp add: validate_asset_payment_txn_def verify_txn_is_sending_asa_to_pool_def
        example_defs group_defs swap_group_def arith_defs cong: seq_weak_cong)
  have v: "swap_fee_pct_scaled_var ?s = 2500" "balance_1 ?s = 1000000" "balance_2 ?s = 1000000"
    by (simp_all add: example_pool_def)
  from swap_exact_for_output [OF out t a] p v
  have "swap_fee_store out = 1000 * 2500 div 1000000 + 1 \<and>
     swap_input_amount_less_fees_store out = 997 \<and>
     swap_output_amount_store out = 1000000 * 997 div (1000000 + 997)"
    by auto
  with out it show ?thesis by simp
qed

section \<open>The first deposit\<close>

lemma sqrt_bits_floor:
  "r * r \<le> n \<Longrightarrow> n < (r + 2 ^ k) * (r + 2 ^ k) \<Longrightarrow>
   sqrt_bits k n r * sqrt_bits k n r \<le> n \<and>
   n < (sqrt_bits k n r + 1) * (sqrt_bits k n r + 1)"
proof (induction k arbitrary: r)
  case 0
  then show ?case by simp
next
  case (Suc k)
  show ?case
  proof (cases "(r + 2 ^ k) * (r + 2 ^ k) \<le> n")
    case True
    have "r + 2 ^ k + 2 ^ k = r + 2 ^ Suc k" by simp
    with Suc.prems(2) have "n < (r + 2 ^ k + 2 ^ k) * (r + 2 ^ k + 2 ^ k)" by metis
    with True Suc.IH [of "r + 2 ^ k"] show ?thesis by simp
  next
    case False
    then have "n < (r + 2 ^ k) * (r + 2 ^ k)" by simp
    with False Suc.prems(1) Suc.IH [of r] show ?thesis by simp
  qed
qed

lemma Sqrt_floor:
  assumes "n \<le> MAX_INT_U64"
  shows "Sqrt n * Sqrt n \<le> n \<and> n < (Sqrt n + 1) * (Sqrt n + 1)"
proof -
  have "n < (0 + 2 ^ 32) * (0 + 2 ^ 32)"
    using assms by (simp add: MAX_INT_U64_def)
  then show ?thesis
    unfolding Sqrt_def by (intro sqrt_bits_floor) simp_all
qed

lemma validate_asset1_payment_txn_pos:
  "validate_asset1_payment_txn ctx s = Inr a \<Longrightarrow> a > 0"
  by (auto simp: validate_asset1_payment_txn_def seq_eq_Inr verify_algos_Inr verify_asa_Inr
      split: if_splits)

lemma on_pool_with_empty:
  assumes "on_pool_with issuance ctx s = Inr out" "balance_1 s = 0" "balance_2 s = 0"
  obtains a1 a2 lp ops sent where
    "validate_asset1_payment_txn ctx s = Inr a1"
    "validate_asset2_payment_txn ctx s = Inr a2"
    "issuance ctx s True a1 a2 = Inr (lp, ops)"
    "lp > 0" "a1 \<ge> 1000" "a2 \<ge> 1000"
    "send_lp ctx s lp = Inr sent"
    "globals out = s\<lparr>latest_time := latest_timestamp ctx, balance_1 := a1, balance_2 := a2,
                       lp_circulation := lp_circulation s + lp\<rparr>"
    "lp_issued_store out = lp" "itxns out = ops @ [sent]"
  using assms(1)
proof (rule on_pool_with_Inr)
  fix a1 a2 is_empty adj1 adj2 res1 res2 lp ops sent s'
  assume v: "validate_asset1_payment_txn ctx s = Inr a1"
      "validate_asset2_payment_txn ctx s = Inr a2"
    and e: "pool_is_empty s = Inr is_empty"
    and adj: "adjust_pool_input_amounts ctx s is_empty a1 a2 = Inr (adj1, adj2, res1, res2)"
    and iss: "issuance ctx s is_empty adj1 adj2 = Inr (lp, ops)" and lp: "lp > 0"
    and snd: "send_lp ctx s lp = Inr sent"
    and s': "s' = s\<lparr>latest_time := (if is_empty then latest_timestamp ctx else latest_time s),
              balance_1 := balance_1 s + adj1, balance_2 := balance_2 s + adj2,
              lp_circulation := lp_circulation s + lp\<rparr>"
    and ratio: "validate_asset_ratio s' = Inr ()"
    and out: "out = (outcome_of s' (ops @ [sent]))
             \<lparr>lp_issued_store := lp, pool_asset1_residual_store := res1,
              pool_asset2_residual_store := res2\<rparr>"
  from e assms(2,3) have emp: "is_empty"
    by (simp add: pool_is_empty_def Add_def)
  with adj have a: "adj1 = a1" "adj2 = a2"
    by (simp_all add: adjust_pool_input_amounts_def)
  have g: "globals out = s\<lparr>latest_time := latest_timestamp ctx, balance_1 := a1,
      balance_2 := a2, lp_circulation := lp_circulation s + lp\<rparr>"
    using assms(2,3) by (simp add: out s' emp a outcome_of_def)
  have st: "lp_issued_store out = lp" "itxns out = ops @ [sent]"
    by (simp_all add: out outcome_of_def)
  from ratio have "a1 \<ge> 1000" "a2 \<ge> 1000"
    using assms(2,3) by (simp_all add: validate_asset_ratio_Inr s' a)
  with v iss lp snd g st emp a that show ?thesis by simp
qed

text \<open>
  Claim C5 as stated has the issuance be the square root of the product whenever the
  product fits in 64 bits. For the deposit \<open>(2^32, 2^32 - 1)\<close> the product fits and its
  square root is \<open>2^32 - 1\<close>, but \<open>MAX div 2^32 = 2^32 - 1\<close> is not above \<open>a2\<close>, and the
  pool issues \<open>65536 * 65535 = 4294901760\<close>.
\<close>

theorem first_deposit_counterexample:
  "\<exists>out. on_pool (example_call (pool_group 4294967296 4294967295) 2) (example_pool 0 0 0 0)
           = Inr out \<and>
     4294967296 * 4294967295 \<le> MAX_INT_U64 \<and>
     Sqrt (4294967296 * 4294967295) = 4294967295 \<and>
     lp_issued_store out = 4294901760"
  by (simp add: on_pool_defs pool_defs example_defs group_defs arith_defs string_defs
      Sqrt_examples cong: seq_weak_cong)

text \<open>
  Claim C5, as the code has it. A successful deposit \<open>(a1, a2)\<close> into a pool whose
  balances are both 0 issues \<open>Sqrt (a1 * a2)\<close> when \<open>MAX div a1 > a2\<close> (the guard of the
  source, \<open>MAX = 2^64 - 1\<close>), which then is the floor of the square root of the product
  (\<open>Sqrt_floor\<close>), and \<open>Sqrt a1 * Sqrt a2\<close> otherwise, which is when \<open>a1 * a2 + a1\<close>
  exceeds \<open>MAX\<close>. The issued amount is positive and is sent to the caller, the balances
  become \<open>a1\<close> and \<open>a2\<close>, and the circulation grows by the issued amount. Depositing
  \<open>(1000000, 1000000)\<close> issues 1000000.
\<close>

theorem first_deposit_issuance:
  assumes "on_pool ctx s = Inr out" and "balance_1 s = 0" and "balance_2 s = 0"
  shows "\<exists>a1 a2 sent.
     validate_asset1_payment_txn ctx s = Inr a1 \<and>
     validate_asset2_payment_txn ctx s = Inr a2 \<and>
     lp_issued_store out =
       (if MAX_INT_U64 div a1 > a2 then Sqrt (a1 * a2) else Sqrt a1 * Sqrt a2) \<and>
     (if MAX_INT_U64 div a1 > a2
      then lp_issued_store out * lp_issued_store out \<le> a1 * a2 \<and>
           a1 * a2 < (lp_issued_store out + 1) * (lp_issued_store out + 1)
      else a1 * a2 + a1 > MAX_INT_U64) \<and>
     lp_issued_store out > 0 \<and>
     balance_1 (globals out) = a1 \<and> balance_2 (globals out) = a2 \<and>
     lp_circulation (globals out) = lp_circulation s + lp_issued_store out \<and>
     itxns out = [sent] \<and> send_lp ctx s (lp_issued_store out) = Inr sent"
proof -
  from assms(1) have "on_pool_with calculate_lp_issuance ctx s = Inr out"
    by (simp add: on_pool_def)
  then show ?thesis
    using assms(2,3)
  proof (rule on_pool_with_empty)
    fix a1 a2 lp ops sent
    assume v: "validate_asset1_payment_txn ctx s = Inr a1"
        "validate_asset2_payment_txn ctx s = Inr a2"
      and iss: "calculate_lp_issuance ctx s True a1 a2 = Inr (lp, ops)"
      and lp: "lp > 0" and snd: "send_lp ctx s lp = Inr sent"
      and g: "globals out = s\<lparr>latest_time := latest_timestamp ctx, balance_1 := a1,
                balance_2 := a2, lp_circulation := lp_circulation s + lp\<rparr>"
      and st: "lp_issued_store out = lp" "itxns out = ops @ [sent]"
    have a1: "a1 > 0" using v(1) by (rule validate_asset1_payment_txn_pos)
    from iss a1 have ops: "ops = []"
      and lpv: "lp = (if MAX_INT_U64 div a1 > a2 then Sqrt (a1 * a2) else Sqrt a1 * Sqrt a2)"
      and fits: "MAX_INT_U64 div a1 > a2 \<Longrightarrow> a1 * a2 \<le> MAX_INT_U64"
      by (auto simp: calculate_lp_issuance_def seq_eq_Inr Div_Inr Mul_Inr split: if_splits)
    have fl: "if MAX_INT_U64 div a1 > a2
      then lp * lp \<le> a1 * a2 \<and> a1 * a2 < (lp + 1) * (lp + 1)
      else a1 * a2 + a1 > MAX_INT_U64"
    proof (cases "MAX_INT_U64 div a1 > a2")
      case True
      with fits lpv Sqrt_floor [of "a1 * a2"] show ?thesis by simp
    next
      case False
      then have "MAX_INT_U64 div a1 < a2 + 1" by simp
      then have "MAX_INT_U64 < (a2 + 1) * a1"
        using a1 by (simp add: div_less_iff_less_mult)
      with False show ?thesis by (simp add: algebra_simps)
    qed
    show ?thesis
      unfolding st g
      using v lpv fl lp snd ops
      by (rule_tac exI [of _ a1], rule_tac exI [of _ a2], rule_tac exI [of _ sent]) simp
  qed
qed

theorem first_deposit_issuance_witness:
  "\<exists>out. on_pool (example_call (pool_group 1000000 1000000) 2) (example_pool 0 0 0 0) = Inr out \<and>
     MAX_INT_U64 div 1000000 > 1000000 \<and>
     lp_issued_store out = Sqrt (1000000 * 1000000) \<and> lp_issued_store out = 1000000 \<and>
     balance_1 (globals out) = 1000000 \<and> balance_2 (globals out) = 1000000"
proof -
  let ?ctx = "example_call (pool_group 1000000 1000000) 2"
  let ?s = "example_pool 0 0 0 0"
  from pool_example obtain out where out: "on_pool ?ctx ?s = Inr out" by blast
  have e: "balance_1 ?s = 0" "balance_2 ?s = 0" by (simp_all add: example_pool_def)
  have v: "validate_asset1_payment_txn ?ctx ?s = Inr 1000000"
    "validate_asset2_payment_txn ?ctx ?s = Inr 1000000"
    by (simp_all add: validate_asset1_payment_txn_def validate_asset2_payment_txn_def
        verify_txn_is_sending_asa_to_pool_def example_defs group_defs pool_group_def
        arith_defs cong: seq_weak_cong)
  have m: "MAX_INT_U64 div 1000000 > 1000000" by (simp add: MAX_INT_U64_def)
  from first_deposit_issuance [OF out e] v m
  have "lp_issued_store out = Sqrt (1000000 * 1000000) \<and>
     balance_1 (globals out) = 1000000 \<and> balance_2 (globals out) = 1000000"
    by auto
  with out m show ?thesis by (simp add: Sqrt_examples)
qed


section \<open>Deposit and full withdrawal\<close>

lemma burn_pair_checks:
  assumes "burn_pair c1 c2 lpa amt" and "amt > 0"
  shows "verify_txn_is_sending_asa_to_pool c1 (relative_index c1 (- 1)) lpa
           = Inr (gtxns c1 ! (group_index c1 - 1))"
    and "validate_noop_application_call c1 = Inr (gtxns c1 ! group_index c1)"
    and "verify_txn_is_named_application_call c1 (relative_index c1 1) burn_asset2_out_str
           = Inr ()"
    and "verify_txn_is_sending_asa_to_pool c2 (relative_index c2 (- 2)) lpa
           = Inr (gtxns c1 ! (group_index c1 - 1))"
    and "verify_txn_is_named_application_call c2 (relative_index c2 (- 1)) burn_asset1_out_str
           = Inr ()"
    and "validate_noop_application_call c2 = Inr (gtxns c2 ! group_index c2)"
    and "Txn c1 = Inr (gtxns c1 ! group_index c1)"
    and "Txn c2 = Inr (gtxns c2 ! group_index c2)"
proof -
  from assms(1) have idx: "group_index c1 \<ge> 1" "group_index c2 = group_index c1 + 1"
      "group_index c2 < length (gtxns c1)" "length (gtxns c1) \<le> 16" "gtxns c2 = gtxns c1"
    and app: "current_application_id c2 = current_application_id c1"
      "current_application_address c2 = current_application_address c1"
    and lp: "type_enum (gtxns c1 ! (group_index c1 - 1)) = AssetTransfer"
      "xfer_asset (gtxns c1 ! (group_index c1 - 1)) = lpa"
      "asset_receiver (gtxns c1 ! (group_index c1 - 1)) = current_application_address c1"
      "asset_amount (gtxns c1 ! (group_index c1 - 1)) = amt"
    and b1: "is_named_call c1 (gtxns c1 ! group_index c1) burn_asset1_out_str"
    and b2: "is_named_call c1 (gtxns c1 ! group_index c2) burn_asset2_out_str"
    unfolding burn_pair_def by blast+
  have rel: "relative_index c1 (- 1) = Inr (group_index c1 - 1)"
    "relative_index c1 1 = Inr (group_index c2)"
    "relative_index c2 (- 2) = Inr (group_index c1 - 1)"
    "relative_index c2 (- 1) = Inr (group_index c1)"
    using idx by (simp_all add: relative_index_def Minus_def Add_def MAX_INT_U64_def)
  have g: "Gtxn c1 (group_index c1 - 1) = Inr (gtxns c1 ! (group_index c1 - 1))"
    "Gtxn c1 (group_index c1) = Inr (gtxns c1 ! group_index c1)"
    "Gtxn c1 (group_index c2) = Inr (gtxns c1 ! group_index c2)"
    "Gtxn c2 (group_index c1 - 1) = Inr (gtxns c1 ! (group_index c1 - 1))"
    "Gtxn c2 (group_index c1) = Inr (gtxns c1 ! group_index c1)"
    "Gtxn c2 (group_index c2) = Inr (gtxns c2 ! group_index c2)"
    using idx by (simp_all add: Gtxn_def)
  have a: "arg (gtxns c1 ! group_index c1) 0 = Inr burn_asset1_out_str"
    "arg (gtxns c1 ! group_index c2) 0 = Inr burn_asset2_out_str"
    using b1 b2 by (auto simp: is_named_call_def arg_def hd_conv_nth [symmetric])
  show "verify_txn_is_sending_asa_to_pool c1 (relative_index c1 (- 1)) lpa
           = Inr (gtxns c1 ! (group_index c1 - 1))"
    using rel g lp assms(2) by (simp add: verify_asa_Inr)
  show "verify_txn_is_sending_asa_to_pool c2 (relative_index c2 (- 2)) lpa
           = Inr (gtxns c1 ! (group_index c1 - 1))"
    using rel g lp app assms(2) by (simp add: verify_asa_Inr)
  show "Txn c1 = Inr (gtxns c1 ! group_index c1)" "Txn c2 = Inr (gtxns c2 ! group_index c2)"
    using g by (simp_all add: Txn_def)
  then show "validate_noop_application_call c1 = Inr (gtxns c1 ! group_index c1)"
    "validate_noop_application_call c2 = Inr (gtxns c2 ! group_index c2)"
    using b1 b2 idx by (simp_all add: validate_noop_Inr is_named_call_def)
  show "verify_txn_is_named_application_call c1 (relative_index c1 1) burn_asset2_out_str
           = Inr ()"
    using rel g b2 a by (simp add: verify_named_Inr is_named_call_def)
  show "verify_txn_is_named_application_call c2 (relative_index c2 (- 1)) burn_asset1_out_str
           = Inr ()"
    using rel g b1 a app by (simp add: verify_named_Inr is_named_call_def)
qed

text \<open>
  Claim C1. Let a deposit \<open>(a1, a2)\<close> into an empty pool (both balances and the LP
  circulation 0) succeed. Then a burn group that returns the whole LP circulation, run
  right after it (with the escrow holding the Algo to pay out when asset 1 is Algo),
  succeeds in both calls: \<^verbatim>\<open>burn_asset1_out\<close> sends exactly \<open>a1\<close> of asset 1 and
  \<^verbatim>\<open>burn_asset2_out\<close> exactly \<open>a2\<close> of asset 2 to the caller, and both balances and the
  LP circulation are 0 afterwards.
\<close>

theorem deposit_burn_round_trip:
  assumes "on_pool ctx s = Inr out"
    and "balance_1 s = 0" and "balance_2 s = 0" and "lp_circulation s = 0"
    and "validate_asset1_payment_txn ctx s = Inr a1"
    and "validate_asset2_payment_txn ctx s = Inr a2"
    and "burn_pair c1 c2 (lp_id s) (lp_circulation (globals out))"
    and "asset1_id s = 1 \<longrightarrow>
           a1 + min_balance c1 \<le> MAX_INT_U64 \<and> escrow_balance c1 \<ge> a1 + min_balance c1"
  shows "\<exists>o1 o2.
     on_burn_asset1_out c1 (globals out) = Inr o1 \<and>
     on_burn_asset2_out c2 (globals o1) = Inr o2 \<and>
     itxns o1 = [if asset1_id s = 1 then PaymentTxn a1 (sender (gtxns c1 ! group_index c1))
                 else AssetTransferTxn (asset1_id s) a1 (sender (gtxns c1 ! group_index c1))] \<and>
     itxns o2 = [AssetTransferTxn (asset2_id s) a2 (sender (gtxns c2 ! group_index c2))] \<and>
     balance_1 (globals o2) = 0 \<and> balance_2 (globals o2) = 0 \<and>
     lp_circulation (globals o2) = 0"
proof -
  from assms(1) have "on_pool_with calculate_lp_issuance ctx s = Inr out"
    by (simp add: on_pool_def)
  then show ?thesis
    using assms(2,3)
  proof (rule on_pool_with_empty)
    fix b1 b2 lp ops sent
    assume v: "validate_asset1_payment_txn ctx s = Inr b1"
        "validate_asset2_payment_txn ctx s = Inr b2"
      and lp: "lp > 0" and big: "b1 \<ge> 1000" "b2 \<ge> 1000"
      and g: "globals out = s\<lparr>latest_time := latest_timestamp ctx, balance_1 := b1,
                balance_2 := b2, lp_circulation := lp_circulation s + lp\<rparr>"
    from v assms(5,6) have eq: "b1 = a1" "b2 = a2" by simp_all
    let ?S = "globals out"
    have S: "lp_id ?S = lp_id s" "asset1_id ?S = asset1_id s" "asset2_id ?S = asset2_id s"
      "balance_1 ?S = a1" "balance_2 ?S = a2" "lp_circulation ?S = lp"
      using assms(4) by (simp_all add: g eq)
    from assms(7) S lp have bp: "burn_pair c1 c2 (lp_id ?S) lp" "lp > 0" by simp_all
    note chk = burn_pair_checks [OF bp]
    from assms(7) S have amt: "asset_amount (gtxns c1 ! (group_index c1 - 1)) = lp"
      by (simp add: burn_pair_def)
    let ?sent1 = "if asset1_id s = 1 then PaymentTxn a1 (sender (gtxns c1 ! group_index c1))
                 else AssetTransferTxn (asset1_id s) a1 (sender (gtxns c1 ! group_index c1))"
    have pos: "a1 > 0" "a2 > 0" using big eq by simp_all
    have send1: "send_asset1 c1 ?S a1 = Inr ?sent1"
      using assms(8) chk(7) S
      by (simp add: send_asset1_def send_algo_def send_asa_def Add_def)
    let ?S1 = "?S\<lparr>balance_1 := 0\<rparr>"
    have o1: "on_burn_asset1_out c1 ?S = Inr ((outcome_of ?S1 [?sent1])
                \<lparr>burn_asset1_amount_store := a1\<rparr>)"
      using chk(1,2,3) amt S pos send1
      by (simp add: on_burn_asset1_out_def Minus_def)
    have S1: "lp_id ?S1 = lp_id s" "asset2_id ?S1 = asset2_id s"
      "balance_1 ?S1 = 0" "balance_2 ?S1 = a2" "lp_circulation ?S1 = lp"
      using S by simp_all
    let ?sent2 = "AssetTransferTxn (asset2_id s) a2 (sender (gtxns c2 ! group_index c2))"
    have send2: "send_asset2 c2 ?S1 a2 = Inr ?sent2"
      using chk(8) S1 by (simp add: send_asset2_def send_asa_def)
    let ?S2 = "?S1\<lparr>balance_2 := 0, lp_circulation := 0\<rparr>"
    have chk4: "verify_txn_is_sending_asa_to_pool c2 (relative_index c2 (- 2)) (lp_id ?S1)
           = Inr (gtxns c1 ! (group_index c1 - 1))"
      using chk(4) by simp
    have o2: "on_burn_asset2_out c2 ?S1 = Inr ((outcome_of ?S2 [?sent2])
                \<lparr>burn_asset2_amount_store := a2\<rparr>)"
      using chk4 chk(5,6) amt S1 pos send2
      by (simp add: on_burn_asset2_out_def Minus_def)
    have fin: "balance_1 ?S2 = 0" "balance_2 ?S2 = 0" "lp_circulation ?S2 = 0"
      by simp_all
    show ?thesis
      apply (rule exI [of _ "(outcome_of ?S1 [?sent1])\<lparr>burn_asset1_amount_store := a1\<rparr>"])
      apply (rule exI [of _ "(outcome_of ?S2 [?sent2])\<lparr>burn_asset2_amount_store := a2\<rparr>"])
      using o1 o2 fin by (simp add: outcome_of_def)
  qed
qed

theorem deposit_burn_round_trip_witness:
  "\<exists>out o1 o2.
     on_pool (example_call (pool_group 1000000 1000000) 2) (example_pool 0 0 0 0) = Inr out \<and>
     on_burn_asset1_out (example_call (burn_group 1000000) 1) (globals out) = Inr o1 \<and>
     on_burn_asset2_out (example_call (burn_group 1000000) 2) (globals o1) = Inr o2 \<and>
     itxns o1 = [AssetTransferTxn 5 1000000 ''USER''] \<and>
     itxns o2 = [AssetTransferTxn 9 1000000 ''USER''] \<and>
     balance_1 (globals o2) = 0 \<and> balance_2 (globals o2) = 0 \<and>
     lp_circulation (globals o2) = 0"
proof -
  let ?ctx = "example_call (pool_group 1000000 1000000) 2"
  let ?s = "example_pool 0 0 0 0"
  let ?c1 = "example_call (burn_group 1000000) 1"
  let ?c2 = "example_call (burn_group 1000000) 2"
  from pool_example obtain out where out: "on_pool ?ctx ?s = Inr out"
    and g: "globals out = (example_pool 1000000 1000000 1000000 0)\<lparr>latest_time := 1000\<rparr>"
    by blast
  have e: "balance_1 ?s = 0" "balance_2 ?s = 0" "lp_circulation ?s = 0"
    by (simp_all add: example_pool_def)
  have v: "validate_asset1_payment_txn ?ctx ?s = Inr 1000000"
    "validate_asset2_payment_txn ?ctx ?s = Inr 1000000"
    by (simp_all add: validate_asset1_payment_txn_def validate_asset2_payment_txn_def
        verify_txn_is_sending_asa_to_pool_def example_defs group_defs pool_group_def
        arith_defs cong: seq_weak_cong)
  have bp: "burn_pair ?c1 ?c2 (lp_id ?s) (lp_circulation (globals out))"
    by (simp add: g burn_pair_def is_named_call_def burn_group_def example_defs)
  have a: "asset1_id ?s = 1 \<longrightarrow>
           1000000 + min_balance ?c1 \<le> MAX_INT_U64 \<and>
           escrow_balance ?c1 \<ge> 1000000 + min_balance ?c1"
    by (simp add: example_defs)
  have ids: "asset1_id ?s = 5" "asset2_id ?s = 9"
    "sender (gtxns ?c1 ! group_index ?c1) = ''USER''"
    "sender (gtxns ?c2 ! group_index ?c2) = ''USER''"
    by (simp_all add: example_defs burn_group_def)
  from deposit_burn_round_trip [OF out e v bp a] ids out show ?thesis
    by auto
qed

section \<open>The first deposit into a stable pool\<close>

lemmas stable_defs = stable_on_pool_def stable_calculate_lp_issuance_def D0_calc_def
  D1_calc_def get_amplification_factor_def interpolate_amplification_factor_def op_up_def

lemma stable_pool_example:
  "\<exists>out. stable_on_pool (example_call (pool_group 1000000 1000000) 2)
           (example_pool 0 0 0 100000000) = Inr out \<and>
         lp_issued_store out = 2000000 \<and>
         itxns out = [AssetTransferTxn 33 2000000 ''USER'']"
  by (simp add: stable_defs on_pool_defs pool_defs example_defs group_defs arith_defs
      string_defs compute_D_def compute_D_loop.simps D_defs bytes_defs cong: seq_weak_cong)

text \<open>
  Claim C10. A successful deposit \<open>(a1, a2)\<close> into a stable pool whose balances are both
  0 issues \<^verbatim>\<open>compute_D(a1, a2, A)\<close>, where \<open>A\<close> is the amplification factor interpolated
  at the time of the call, and the issued amount is positive: a deposit for which
  \<^verbatim>\<open>compute_D\<close> yields 0 does not succeed.
\<close>

theorem stable_first_deposit:
  assumes "stable_on_pool ctx s = Inr out" and "balance_1 s = 0" and "balance_2 s = 0"
  shows "\<exists>a1 a2 A sent.
     validate_asset1_payment_txn ctx s = Inr a1 \<and>
     validate_asset2_payment_txn ctx s = Inr a2 \<and>
     get_amplification_factor ctx s = Inr A \<and>
     compute_D a1 a2 A = Inr (lp_issued_store out) \<and>
     lp_issued_store out > 0 \<and>
     balance_1 (globals out) = a1 \<and> balance_2 (globals out) = a2 \<and>
     lp_circulation (globals out) = lp_circulation s + lp_issued_store out \<and>
     itxns out = [sent] \<and> send_lp ctx s (lp_issued_store out) = Inr sent"
proof -
  from assms(1) have "on_pool_with stable_calculate_lp_issuance ctx s = Inr out"
    by (simp add: stable_on_pool_def)
  then show ?thesis
    using assms(2,3)
  proof (rule on_pool_with_empty)
    fix a1 a2 lp ops sent
    assume v: "validate_asset1_payment_txn ctx s = Inr a1"
        "validate_asset2_payment_txn ctx s = Inr a2"
      and iss: "stable_calculate_lp_issuance ctx s True a1 a2 = Inr (lp, ops)"
      and lp: "lp > 0" and snd: "send_lp ctx s lp = Inr sent"
      and g: "globals out = s\<lparr>latest_time := latest_timestamp ctx, balance_1 := a1,
                balance_2 := a2, lp_circulation := lp_circulation s + lp\<rparr>"
      and st: "lp_issued_store out = lp" "itxns out = ops @ [sent]"
    from iss assms(2,3) obtain A where ops: "ops = []"
      and A: "get_amplification_factor ctx s = Inr A" and D: "compute_D a1 a2 A = Inr lp"
      by (auto simp: stable_calculate_lp_issuance_def D1_calc_def seq_eq_Inr Add_Inr)
    show ?thesis
      unfolding st g
      using v A D lp snd ops
      by (rule_tac exI [of _ a1], rule_tac exI [of _ a2], rule_tac exI [of _ A],
          rule_tac exI [of _ sent]) simp
  qed
qed

theorem stable_first_deposit_witness:
  "\<exists>out. stable_on_pool (example_call (pool_group 1000000 1000000) 2)
           (example_pool 0 0 0 100000000) = Inr out \<and>
     get_amplification_factor (example_call (pool_group 1000000 1000000) 2)
       (example_pool 0 0 0 100000000) = Inr 100000000 \<and>
     compute_D 1000000 1000000 100000000 = Inr (lp_issued_store out) \<and>
     lp_issued_store out = 2000000"
proof -
  let ?ctx = "example_call (pool_group 1000000 1000000) 2"
  let ?s = "example_pool 0 0 0 100000000"
  from stable_pool_example obtain out where out: "stable_on_pool ?ctx ?s = Inr out"
    and lp: "lp_issued_store out = 2000000"
    by blast
  have e: "balance_1 ?s = 0" "balance_2 ?s = 0" by (simp_all add: example_pool_def)
  have v: "validate_asset1_payment_txn ?ctx ?s = Inr 1000000"
    "validate_asset2_payment_txn ?ctx ?s = Inr 1000000"
    by (simp_all add: validate_asset1_payment_txn_def validate_asset2_payment_txn_def
        verify_txn_is_sending_asa_to_pool_def example_defs group_defs pool_group_def
        arith_defs cong: seq_weak_cong)
  have A: "get_amplification_factor ?ctx ?s = Inr 100000000"
    by (simp add: get_amplification_factor_def interpolate_amplification_factor_def
        example_defs)
  from stable_first_deposit [OF out e] v A
  have "compute_D 1000000 1000000 100000000 = Inr (lp_issued_store out)"
    by auto
  with out A lp show ?thesis by simp
qed

end
